theory Spec2Isabelle
  imports Complex_Main "HOL-Library.Sublist"
begin

text \<open>
  A model of \<^verbatim>\<open>fatcat_scholar/issue_db.py\<close>: the three row classes, the insert methods
  of \<^verbatim>\<open>IssueDB\<close>, its container cache, and the two ingestion methods \<^verbatim>\<open>load_pubs\<close> and
  \<^verbatim>\<open>load_issues\<close>. A method takes the state of the object and returns its result, an
  exception or a value, together with the new state. Line numbers are those of the
  source file.
\<close>

section \<open>Python values and the library operations that issue\_db.py uses\<close>

text \<open>
  The records that \<^verbatim>\<open>json.loads\<close> returns are dynamically typed, and the code
  branches on their truth value, subscripts them and calls string methods on them.
  A value is therefore one of the shapes a JSON document decodes to. A \<^verbatim>\<open>str\<close> is a
  list of characters; a character stands for the code point of the same number, so the
  strings of the model are the Python strings over the code points 0 to 255. A
  \<^verbatim>\<open>float\<close> is the rational it denotes (NaN and the infinities are left out). A
  \<^verbatim>\<open>dict\<close> with string keys is an association list read with \<open>map_of\<close>.
\<close>

datatype pyval =
    PNone
  | PBool bool
  | PInt int
  | PFloat rat
  | PStr string
  | PList "pyval list"
  | PDict "(string \<times> pyval) list"

text \<open>
  Every exception the two ingestion methods can raise is a value. \<open>TransportError\<close>
  stands for what a client raises when its service cannot be reached.
\<close>

datatype error =
    JSONDecodeError
  | KeyError string
  | TypeError
  | AttributeError
  | AssertionError
  | ValueError
  | OverflowError
  | ApiException "int option"
  | TransportError
  | OperationalError
  | ProgrammingError
  | InterfaceError

text \<open>\<^verbatim>\<open>if x:\<close> and \<^verbatim>\<open>not x\<close>: the truth value of a Python object.\<close>

fun truthy :: "pyval \<Rightarrow> bool" where
  "truthy PNone = False"
| "truthy (PBool b) = b"
| "truthy (PInt i) = (i \<noteq> 0)"
| "truthy (PFloat r) = (r \<noteq> 0)"
| "truthy (PStr s) = (s \<noteq> [])"
| "truthy (PList l) = (l \<noteq> [])"
| "truthy (PDict d) = (d \<noteq> [])"

text \<open>\<^verbatim>\<open>x[key]\<close> with a string key: only a dict accepts it, and a missing key raises.\<close>

fun getitem :: "pyval \<Rightarrow> string \<Rightarrow> error + pyval" where
  "getitem (PDict d) k = (case map_of d k of None \<Rightarrow> Inl (KeyError k) | Some v \<Rightarrow> Inr v)"
| "getitem _ k = Inl TypeError"

text \<open>\<^verbatim>\<open>d.get(key)\<close> on a dict: \<^verbatim>\<open>None\<close> when the key is missing.\<close>

definition dict_get :: "(string \<times> pyval) list \<Rightarrow> string \<Rightarrow> pyval" where
  "dict_get d k = (case map_of d k of None \<Rightarrow> PNone | Some v \<Rightarrow> v)"

text \<open>
  \<^verbatim>\<open>"periodicals" in x\<close>: membership in a list, substring of a string, key of a dict;
  any other operand is not iterable.
\<close>

fun py_in :: "string \<Rightarrow> pyval \<Rightarrow> error + bool" where
  "py_in s (PList l) = Inr (List.member l (PStr s))"
| "py_in s (PStr t) = Inr (sublist s t)"
| "py_in s (PDict d) = Inr (List.member (map fst d) s)"
| "py_in s _ = Inl TypeError"

text \<open>\<^verbatim>\<open>for p in x\<close>: the elements of a list, the characters of a string, the keys of a dict.\<close>

fun py_iter :: "pyval \<Rightarrow> error + pyval list" where
  "py_iter (PList l) = Inr l"
| "py_iter (PStr s) = Inr (map (\<lambda>c. PStr [c]) s)"
| "py_iter (PDict d) = Inr (map (\<lambda>kv. PStr (fst kv)) d)"
| "py_iter _ = Inl TypeError"

text \<open>
  \<^verbatim>\<open>str.isdigit\<close>: true for a non-empty string all of whose characters have the Unicode
  property Numeric\_Type Digit or Decimal. Below code point 256 these are the ten ASCII
  digits and the superscripts U+00B2, U+00B3 and U+00B9. Only the ASCII digits are
  decimal characters, the ones \<^verbatim>\<open>int\<close> accepts.
\<close>

definition isdecimal_char :: "char \<Rightarrow> bool" where
  "isdecimal_char c = List.member ''0123456789'' c"

definition isdigit_char :: "char \<Rightarrow> bool" where
  "isdigit_char c = (isdecimal_char c \<or> List.member [CHR 0xB2, CHR 0xB3, CHR 0xB9] c)"

definition str_isdigit :: "string \<Rightarrow> bool" where
  "str_isdigit s = (s \<noteq> [] \<and> list_all isdigit_char s)"

definition digit_val :: "char \<Rightarrow> int" where
  "digit_val c = int (of_char c) - 48"

text \<open>
  \<^verbatim>\<open>int(s)\<close> for a string, base ten: surrounding whitespace is dropped, one sign may
  lead, and the digits may be separated by single underscores. Anything else raises
  \<^verbatim>\<open>ValueError\<close>. The whitespace that \<^verbatim>\<open>int\<close> drops is narrower than that of
  \<^verbatim>\<open>str.isspace\<close>: below code point 256 it is the space, the controls U+0009 to
  U+000D, U+0085 and U+00A0, and not the separators U+001C to U+001F. A literal of more
  than 4300 digits raises as well, which is the default limit of Python 3.11 and
  later. \<open>digits\<close> reads what follows a digit.
\<close>

definition int_space_char :: "char \<Rightarrow> bool" where
  "int_space_char c = List.member [CHR 0x09, CHR 0x0A, CHR 0x0B, CHR 0x0C, CHR 0x0D,
     CHR 0x20, CHR 0x85, CHR 0xA0] c"

definition int_max_str_digits :: nat where
  "int_max_str_digits = 4300"

fun digits :: "string \<Rightarrow> int \<Rightarrow> error + int" where
  "digits [] acc = Inr acc"
| "digits [c] acc = (if isdecimal_char c then Inr (10 * acc + digit_val c) else Inl ValueError)"
| "digits (c # d # cs) acc =
     (if c = CHR ''_'' then
        (if isdecimal_char d then digits cs (10 * acc + digit_val d) else Inl ValueError)
      else if isdecimal_char c then digits (d # cs) (10 * acc + digit_val c)
      else Inl ValueError)"

definition strip :: "string \<Rightarrow> string" where
  "strip s = rev (dropWhile int_space_char (rev (dropWhile int_space_char s)))"

definition unsigned_int :: "string \<Rightarrow> error + int" where
  "unsigned_int s =
     (if int_max_str_digits < length (filter isdecimal_char s) then Inl ValueError
      else
        (case s of [] \<Rightarrow> Inl ValueError
         | d # ds \<Rightarrow> if isdecimal_char d then digits ds (digit_val d) else Inl ValueError))"

definition py_int :: "string \<Rightarrow> error + int" where
  "py_int s =
     (case strip s of [] \<Rightarrow> Inl ValueError
      | c # cs \<Rightarrow>
          if c = CHR ''-'' then (case unsigned_int cs of Inl e \<Rightarrow> Inl e | Inr n \<Rightarrow> Inr (- n))
          else if c = CHR ''+'' then unsigned_int cs
          else unsigned_int (c # cs))"

text \<open>\<^verbatim>\<open>min(pages)\<close> and \<^verbatim>\<open>max(pages)\<close>, called on a non-empty list only.\<close>

definition list_min :: "int list \<Rightarrow> int" where
  "list_min ns = fold min (tl ns) (hd ns)"

definition list_max :: "int list \<Rightarrow> int" where
  "list_max ns = fold max (tl ns) (hd ns)"

section \<open>The store\<close>

text \<open>
  The SQLite file holds three tables. Their DDL (\<^verbatim>\<open>schema/issue_db.sql\<close>) is not part
  of the sources, so what a statement needs of it is part of the state: the number of
  columns of a table and the positions of its primary-key columns. The statements
  insert by position, so a column is addressed by its position in the row tuples
  (\<^verbatim>\<open>sim_pubid\<close> is column 0 of \<^verbatim>\<open>sim_pub\<close>, \<^verbatim>\<open>container_ident\<close> column 7). Column
  type affinity and constraints other than the primary key are not modelled.
\<close>

record table =
  ncols :: nat
  pkey :: "nat list"
  rows :: "pyval list list"

record tables =
  sim_pub :: table
  sim_issue :: table
  release_counts :: table

text \<open>
  The calls made to the collaborators, in order. The log is not a field of the
  Python object: it records which external calls and commits a run performs.
\<close>

datatype event =
    LookupContainer pyval
  | Select pyval
  | Count string "(string \<times> pyval) list"
  | Commit

text \<open>
  \<open>stored\<close> is the content of the database file, \<open>db\<close> what the open connection
  sees: the file plus the writes of the transaction that the first INSERT opens and
  \<^verbatim>\<open>commit()\<close> ends.
\<close>

record IssueDB =
  stored :: tables
  db :: tables
  pubid2container_map :: "pyval \<rightharpoonup> pyval"
  calls :: "event list"

definition init :: "tables \<Rightarrow> IssueDB" where
  "init file = \<lparr>stored = file, db = file, pubid2container_map = Map.empty, calls = []\<rparr>"

definition log :: "event \<Rightarrow> IssueDB \<Rightarrow> IssueDB" where
  "log ev self = self\<lparr>calls := calls self @ [ev]\<rparr>"

text \<open>
  Binding a Python value to a statement parameter: \<^verbatim>\<open>None\<close>, numbers and strings are
  stored (a bool as the integer it is, an integer only if it fits 64 bits); a list or a
  dict is not a supported type.
\<close>

fun bind_param :: "pyval \<Rightarrow> error + pyval" where
  "bind_param PNone = Inr PNone"
| "bind_param (PBool b) = Inr (PInt (if b then 1 else 0))"
| "bind_param (PInt i) =
     (if - (2 ^ 63) \<le> i \<and> i < 2 ^ 63 then Inr (PInt i) else Inl OverflowError)"
| "bind_param (PFloat r) = Inr (PFloat r)"
| "bind_param (PStr s) = Inr (PStr s)"
| "bind_param (PList l) = Inl InterfaceError"
| "bind_param (PDict d) = Inl InterfaceError"

fun bind_params :: "pyval list \<Rightarrow> error + pyval list" where
  "bind_params [] = Inr []"
| "bind_params (p # ps) =
     (case bind_param p of Inl e \<Rightarrow> Inl e
      | Inr v \<Rightarrow> (case bind_params ps of Inl e \<Rightarrow> Inl e | Inr vs \<Rightarrow> Inr (v # vs)))"

definition col :: "pyval list \<Rightarrow> nat \<Rightarrow> pyval" where
  "col r i = (if i < length r then r ! i else PNone)"

text \<open>SQL equality: NULL equals nothing, not even NULL.\<close>

definition sql_eq :: "pyval \<Rightarrow> pyval \<Rightarrow> bool" where
  "sql_eq a b = (a \<noteq> PNone \<and> b \<noteq> PNone \<and> a = b)"

text \<open>A stored row conflicts with a new one when they agree on every primary-key column.\<close>

definition conflicts :: "nat list \<Rightarrow> pyval list \<Rightarrow> pyval list \<Rightarrow> bool" where
  "conflicts pk r vs = (pk \<noteq> [] \<and> list_all (\<lambda>i. sql_eq (col r i) (col vs i)) pk)"

text \<open>
  \<^verbatim>\<open>cur.execute("INSERT OR REPLACE INTO t VALUES (?,...,?)", params)\<close> with \<open>nq\<close>
  placeholders. Preparing the statement fails unless the table has \<open>nq\<close> columns; the
  sqlite3 module then refuses a parameter tuple of another length, and binds the
  parameters. The statement deletes the rows that conflict and adds the new one.
\<close>

definition insert_or_replace :: "nat \<Rightarrow> pyval list \<Rightarrow> table \<Rightarrow> error + table" where
  "insert_or_replace nq params t =
     (if ncols t \<noteq> nq then Inl OperationalError
      else if length params \<noteq> nq then Inl ProgrammingError
      else (case bind_params params of Inl e \<Rightarrow> Inl e
            | Inr vs \<Rightarrow> Inr (t\<lparr>rows := filter (\<lambda>r. \<not> conflicts (pkey t) r vs) (rows t) @ [vs]\<rparr>)))"

text \<open>
  \<^verbatim>\<open>SELECT container_ident FROM sim_pub WHERE sim_pubid = ?\<close>: the first column of
  each result row, in the order of the table. The statement cannot be prepared on a
  table that lacks the eighth column.
\<close>

definition select_container_ident :: "table \<Rightarrow> pyval \<Rightarrow> error + pyval list" where
  "select_container_ident t sim_pubid =
     (if ncols t < 8 then Inl OperationalError
      else (case bind_param sim_pubid of Inl e \<Rightarrow> Inl e
            | Inr v \<Rightarrow> Inr (map (\<lambda>r. col r 7) (filter (\<lambda>r. sql_eq (col r 0) v) (rows t)))))"

section \<open>The row classes\<close>

record SimPubRow =
  sim_pubid :: pyval
  pub_collection :: pyval
  title :: pyval
  issn :: pyval
  pub_type :: pyval
  publisher :: pyval
  container_issnl :: pyval
  container_ident :: pyval
  wikidata_qid :: pyval

definition SimPubRow_tuple :: "SimPubRow \<Rightarrow> pyval list" where
  "SimPubRow_tuple r = [SimPubRow.sim_pubid r, pub_collection r, title r, issn r, pub_type r,
     publisher r, container_issnl r, container_ident r, SimPubRow.wikidata_qid r]"

record SimIssueRow =
  issue_item :: pyval
  sim_pubid :: pyval
  year :: pyval
  volume :: pyval
  issue :: pyval
  first_page :: pyval
  last_page :: pyval
  release_count :: pyval

definition SimIssueRow_tuple :: "SimIssueRow \<Rightarrow> pyval list" where
  "SimIssueRow_tuple r = [issue_item r, SimIssueRow.sim_pubid r, SimIssueRow.year r,
     SimIssueRow.volume r, issue r, first_page r, last_page r, SimIssueRow.release_count r]"

record ReleaseCountsRow =
  sim_pubid :: pyval
  year_in_sim :: pyval
  release_count :: pyval
  year :: pyval
  volume :: pyval

definition ReleaseCountsRow_tuple :: "ReleaseCountsRow \<Rightarrow> pyval list" where
  "ReleaseCountsRow_tuple r = [ReleaseCountsRow.sim_pubid r, ReleaseCountsRow.year r,
     ReleaseCountsRow.volume r, year_in_sim r, ReleaseCountsRow.release_count r]"

text \<open>The entity that the catalog client returns; an attribute may be \<^verbatim>\<open>None\<close>.\<close>

record ContainerEntity =
  issnl :: pyval
  ident :: pyval
  wikidata_qid :: pyval

section \<open>The collaborators\<close>

text \<open>
  \<^verbatim>\<open>json.loads\<close>, the catalog client and the search client are not code of this
  repository; each is a parameter. Of the JSON decoder one fact is fixed: a document
  of JSON whitespace only has no value, so it raises. The catalog client answers with
  an entity or raises (an \<^verbatim>\<open>ApiException\<close> carrying the HTTP status, or anything
  else); the search client answers a count query on an index with a number or raises.
\<close>

type_synonym decoder = "string \<Rightarrow> error + pyval"

type_synonym api_client = "pyval \<Rightarrow> error + ContainerEntity"

type_synonym es_client = "string \<Rightarrow> (string \<times> pyval) list \<Rightarrow> error + int"

definition json_whitespace :: "char \<Rightarrow> bool" where
  "json_whitespace c = List.member [CHR 0x20, CHR 0x09, CHR 0x0A, CHR 0x0D] c"

definition json_loads :: "decoder \<Rightarrow> string \<Rightarrow> error + pyval" where
  "json_loads dec s = (if list_all json_whitespace s then Inl JSONDecodeError else dec s)"

text \<open>
  \<open>es_issue_count\<close>: a count on the index \<^verbatim>\<open>fatcat_release\<close> under four term
  filters.
\<close>

definition issue_filters :: "pyval \<Rightarrow> pyval \<Rightarrow> pyval \<Rightarrow> pyval \<Rightarrow> (string \<times> pyval) list" where
  "issue_filters container_id yr vol iss =
     [(''container_id'', container_id), (''year'', yr), (''volume'', vol), (''issue'', iss)]"

definition es_issue_count :: "es_client \<Rightarrow> pyval \<Rightarrow> pyval \<Rightarrow> pyval \<Rightarrow> pyval \<Rightarrow> error + int" where
  "es_issue_count es container_id yr vol iss =
     es ''fatcat_release'' (issue_filters container_id yr vol iss)"

section \<open>IssueDB: the insert methods and the container cache\<close>

text \<open>
  Lines 113 to 129. The cursor argument only names the cursor of the connection on
  which the statement runs, so it is not a parameter here. A statement that raises
  writes nothing.
\<close>

definition insert_sim_pub :: "IssueDB \<Rightarrow> SimPubRow \<Rightarrow> (error + unit) \<times> IssueDB" where
  "insert_sim_pub self pub =
     (case insert_or_replace 9 (SimPubRow_tuple pub) (sim_pub (db self)) of
        Inl e \<Rightarrow> (Inl e, self)
      | Inr t \<Rightarrow> (Inr (), self\<lparr>db := (db self)\<lparr>sim_pub := t\<rparr>\<rparr>))"

definition insert_sim_issue :: "IssueDB \<Rightarrow> SimIssueRow \<Rightarrow> (error + unit) \<times> IssueDB" where
  "insert_sim_issue self row =
     (case insert_or_replace 8 (SimIssueRow_tuple row) (sim_issue (db self)) of
        Inl e \<Rightarrow> (Inl e, self)
      | Inr t \<Rightarrow> (Inr (), self\<lparr>db := (db self)\<lparr>sim_issue := t\<rparr>\<rparr>))"

definition insert_release_counts :: "IssueDB \<Rightarrow> ReleaseCountsRow \<Rightarrow> (error + unit) \<times> IssueDB" where
  "insert_release_counts self counts =
     (case insert_or_replace 9 (ReleaseCountsRow_tuple counts) (release_counts (db self)) of
        Inl e \<Rightarrow> (Inl e, self)
      | Inr t \<Rightarrow> (Inr (), self\<lparr>db := (db self)\<lparr>release_counts := t\<rparr>\<rparr>))"

text \<open>
  The key under which a dict files a value: a list or a dict cannot be hashed, and
  \<^verbatim>\<open>True\<close>, \<^verbatim>\<open>1\<close> and \<^verbatim>\<open>1.0\<close> are one key.
\<close>

fun hash_key :: "pyval \<Rightarrow> pyval option" where
  "hash_key PNone = Some PNone"
| "hash_key (PBool b) = Some (PInt (if b then 1 else 0))"
| "hash_key (PInt i) = Some (PInt i)"
| "hash_key (PFloat r) = Some (if of_int \<lfloor>r\<rfloor> = r then PInt \<lfloor>r\<rfloor> else PFloat r)"
| "hash_key (PStr s) = Some (PStr s)"
| "hash_key (PList l) = None"
| "hash_key (PDict d) = None"

text \<open>
  Lines 131 to 140: the cache is asked first; otherwise the table is read and the
  outcome, a container id or \<^verbatim>\<open>None\<close>, is filed in the cache.
\<close>

definition pubid2container :: "IssueDB \<Rightarrow> pyval \<Rightarrow> (error + pyval) \<times> IssueDB" where
  "pubid2container self pubid =
     (case hash_key pubid of
        None \<Rightarrow> (Inl TypeError, self)
      | Some k \<Rightarrow>
          (case pubid2container_map self k of
             Some v \<Rightarrow> (Inr v, self)
           | None \<Rightarrow>
               (case select_container_ident (sim_pub (db self)) pubid of
                  Inl e \<Rightarrow> (Inl e, log (Select pubid) self)
                | Inr [] \<Rightarrow>
                    (Inr PNone,
                     (log (Select pubid) self)\<lparr>pubid2container_map := (pubid2container_map self)(k \<mapsto> PNone)\<rparr>)
                | Inr (v # _) \<Rightarrow>
                    (Inr v,
                     (log (Select pubid) self)\<lparr>pubid2container_map := (pubid2container_map self)(k \<mapsto> v)\<rparr>))))"

text \<open>\<^verbatim>\<open>self.db.commit()\<close>: the file takes what the connection sees.\<close>

definition commit :: "IssueDB \<Rightarrow> IssueDB" where
  "commit self = log Commit (self\<lparr>stored := db self\<rparr>)"

section \<open>Reading one input line\<close>

text \<open>
  Both methods start alike: decode the line, take \<^verbatim>\<open>obj['metadata']\<close>, and assert that
  \<^verbatim>\<open>"periodicals"\<close> is in \<^verbatim>\<open>meta['collection']\<close>. Subscripting anything but a dict with a
  string raises \<^verbatim>\<open>TypeError\<close>. The result is the pair of the two dicts.
\<close>

fun as_dict :: "pyval \<Rightarrow> error + (string \<times> pyval) list" where
  "as_dict (PDict d) = Inr d"
| "as_dict _ = Inl TypeError"

definition assert_periodicals :: "(string \<times> pyval) list \<Rightarrow> error + unit" where
  "assert_periodicals meta =
     (case getitem (PDict meta) ''collection'' of
        Inl e \<Rightarrow> Inl e
      | Inr coll \<Rightarrow>
          (case py_in ''periodicals'' coll of
             Inl e \<Rightarrow> Inl e
           | Inr b \<Rightarrow> if b then Inr () else Inl AssertionError))"

definition read_record :: "decoder \<Rightarrow> string \<Rightarrow> error + (string \<times> pyval) list \<times> (string \<times> pyval) list" where
  "read_record dec line =
     (case json_loads dec line of
        Inl e \<Rightarrow> Inl e
      | Inr v \<Rightarrow>
          (case as_dict v of
             Inl e \<Rightarrow> Inl e
           | Inr obj \<Rightarrow>
               (case getitem (PDict obj) ''metadata'' of
                  Inl e \<Rightarrow> Inl e
                | Inr mv \<Rightarrow>
                    (case as_dict mv of
                       Inl e \<Rightarrow> Inl e
                     | Inr meta \<Rightarrow>
                         (case assert_periodicals meta of
                            Inl e \<Rightarrow> Inl e
                          | Inr _ \<Rightarrow> Inr (obj, meta))))))"

section \<open>load\_pubs\<close>

text \<open>
  The lookup of lines 154 to 160: only a record with a true \<^verbatim>\<open>issn\<close> asks the
  catalog; an \<^verbatim>\<open>ApiException\<close> with status 404 is swallowed and leaves the container
  \<^verbatim>\<open>None\<close>, any other exception leaves the method.
\<close>

fun not_found :: "error \<Rightarrow> bool" where
  "not_found (ApiException status) = (status = Some 404)"
| "not_found _ = False"

definition container_of :: "api_client \<Rightarrow> (string \<times> pyval) list \<Rightarrow> error + ContainerEntity option" where
  "container_of api meta =
     (if truthy (dict_get meta ''issn'') then
        (case api (dict_get meta ''issn'') of
           Inr c \<Rightarrow> Inr (Some c)
         | Inl ae \<Rightarrow> if not_found ae then Inr None else Inl ae)
      else Inr None)"

definition lookup_container :: "api_client \<Rightarrow> (string \<times> pyval) list \<Rightarrow> IssueDB \<Rightarrow>
    (error + ContainerEntity option) \<times> IssueDB" where
  "lookup_container api meta self =
     (container_of api meta,
      if truthy (dict_get meta ''issn'') then log (LookupContainer (dict_get meta ''issn'')) self
      else self)"

text \<open>\<^verbatim>\<open>container and container.attr\<close>.\<close>

definition and_attr :: "ContainerEntity option \<Rightarrow> (ContainerEntity \<Rightarrow> pyval) \<Rightarrow> pyval" where
  "and_attr container attr = (case container of None \<Rightarrow> PNone | Some c \<Rightarrow> attr c)"

definition pub_row :: "(string \<times> pyval) list \<Rightarrow> ContainerEntity option \<Rightarrow> error + SimPubRow" where
  "pub_row meta container =
     (case getitem (PDict meta) ''sim_pubid'' of
        Inl e \<Rightarrow> Inl e
      | Inr pubid \<Rightarrow>
          (case getitem (PDict meta) ''identifier'' of
             Inl e \<Rightarrow> Inl e
           | Inr coll \<Rightarrow>
               (case getitem (PDict meta) ''title'' of
                  Inl e \<Rightarrow> Inl e
                | Inr ttl \<Rightarrow>
                    Inr \<lparr>SimPubRow.sim_pubid = pubid,
                         pub_collection = coll,
                         title = ttl,
                         issn = dict_get meta ''issn'',
                         pub_type = dict_get meta ''pub_type'',
                         publisher = dict_get meta ''publisher'',
                         container_issnl = and_attr container issnl,
                         container_ident = and_attr container ident,
                         SimPubRow.wikidata_qid = and_attr container ContainerEntity.wikidata_qid\<rparr>)))"

text \<open>
  Lines 149 to 172, the body of the loop, and the loop itself; an exception leaves the
  loop and the method, so that line 174, the commit, is reached only when every line
  has been read.
\<close>

definition load_pubs_line :: "decoder \<Rightarrow> api_client \<Rightarrow> IssueDB \<Rightarrow> string \<Rightarrow> (error + unit) \<times> IssueDB" where
  "load_pubs_line dec api self line =
     (if line = [] then (Inr (), self)
      else
        (case read_record dec line of
           Inl e \<Rightarrow> (Inl e, self)
         | Inr (obj, meta) \<Rightarrow>
             (case lookup_container api meta self of
                (Inl e, self1) \<Rightarrow> (Inl e, self1)
              | (Inr container, self1) \<Rightarrow>
                  (case pub_row meta container of
                     Inl e \<Rightarrow> (Inl e, self1)
                   | Inr row \<Rightarrow> insert_sim_pub self1 row))))"

fun load_pubs_loop :: "decoder \<Rightarrow> api_client \<Rightarrow> IssueDB \<Rightarrow> string list \<Rightarrow> (error + unit) \<times> IssueDB" where
  "load_pubs_loop dec api self [] = (Inr (), self)"
| "load_pubs_loop dec api self (line # json_lines) =
     (case load_pubs_line dec api self line of
        (Inl e, self1) \<Rightarrow> (Inl e, self1)
      | (Inr _, self1) \<Rightarrow> load_pubs_loop dec api self1 json_lines)"

definition load_pubs :: "decoder \<Rightarrow> api_client \<Rightarrow> IssueDB \<Rightarrow> string list \<Rightarrow> (error + unit) \<times> IssueDB" where
  "load_pubs dec api self json_lines =
     (case load_pubs_loop dec api self json_lines of
        (Inl e, self1) \<Rightarrow> (Inl e, self1)
      | (Inr _, self1) \<Rightarrow> (Inr (), commit self1))"

section \<open>load\_issues\<close>

text \<open>Line 193: \<^verbatim>\<open>endswith\<close> is a method of strings only.\<close>

fun is_meta_item :: "pyval \<Rightarrow> error + bool" where
  "is_meta_item (PStr s) = Inr (suffix ''_index'' s \<or> suffix ''_contents'' s)"
| "is_meta_item _ = Inl AttributeError"

text \<open>
  Lines 198 to 200: \<^verbatim>\<open>int(meta['date'][:4])\<close> when the date is true. Only the slice of
  a string is something \<^verbatim>\<open>int\<close> can read.
\<close>

fun int_of_slice :: "pyval \<Rightarrow> error + pyval" where
  "int_of_slice (PStr s) = (case py_int (take 4 s) of Inl e \<Rightarrow> Inl e | Inr n \<Rightarrow> Inr (PInt n))"
| "int_of_slice _ = Inl TypeError"

definition issue_year :: "(string \<times> pyval) list \<Rightarrow> error + pyval" where
  "issue_year meta =
     (if truthy (dict_get meta ''date'') then int_of_slice (dict_get meta ''date'')
      else Inr PNone)"

text \<open>
  Line 207: \<^verbatim>\<open>[p['pageNumber'] for p in pages if p['pageNumber']]\<close>, and line 208:
  \<^verbatim>\<open>[int(p) for p in pages if p.isdigit()]\<close>. Each comprehension stops at its first
  exception.
\<close>

fun page_numbers :: "pyval list \<Rightarrow> error + pyval list" where
  "page_numbers [] = Inr []"
| "page_numbers (p # ps) =
     (case getitem p ''pageNumber'' of
        Inl e \<Rightarrow> Inl e
      | Inr v \<Rightarrow>
          (case page_numbers ps of
             Inl e \<Rightarrow> Inl e
           | Inr vs \<Rightarrow> Inr (if truthy v then v # vs else vs)))"

fun isdigit :: "pyval \<Rightarrow> error + bool" where
  "isdigit (PStr s) = Inr (str_isdigit s)"
| "isdigit _ = Inl AttributeError"

fun int_of :: "pyval \<Rightarrow> error + int" where
  "int_of (PStr s) = py_int s"
| "int_of _ = Inl TypeError"

fun page_ints :: "pyval list \<Rightarrow> error + int list" where
  "page_ints [] = Inr []"
| "page_ints (p # ps) =
     (case isdigit p of
        Inl e \<Rightarrow> Inl e
      | Inr b \<Rightarrow>
          if b then
            (case int_of p of
               Inl e \<Rightarrow> Inl e
             | Inr n \<Rightarrow> (case page_ints ps of Inl e \<Rightarrow> Inl e | Inr ns \<Rightarrow> Inr (n # ns)))
          else page_ints ps)"

definition first_last :: "int list \<Rightarrow> pyval \<times> pyval" where
  "first_last pages =
     (if length pages \<noteq> 0 then (PInt (list_min pages), PInt (list_max pages))
      else (PNone, PNone))"

text \<open>Lines 204 to 211: the pair \<open>(first_page, last_page)\<close>.\<close>

definition page_range :: "(string \<times> pyval) list \<Rightarrow> error + pyval \<times> pyval" where
  "page_range obj =
     (if truthy (dict_get obj ''page_numbers'') then
        (case getitem (dict_get obj ''page_numbers'') ''pages'' of
           Inl e \<Rightarrow> Inl e
         | Inr pv \<Rightarrow>
             (case py_iter pv of
                Inl e \<Rightarrow> Inl e
              | Inr ps \<Rightarrow>
                  (case page_numbers ps of
                     Inl e \<Rightarrow> Inl e
                   | Inr vs \<Rightarrow>
                       (case page_ints vs of
                          Inl e \<Rightarrow> Inl e
                        | Inr pages \<Rightarrow> Inr (first_last pages)))))
      else Inr (PNone, PNone))"

text \<open>
  Lines 189 to 211, which touch neither the store nor a collaborator: the row as it
  stands before the release count is looked up, or \<open>None\<close> when the item is skipped
  (\<^verbatim>\<open>continue\<close>).
\<close>

definition issue_fields :: "(string \<times> pyval) list \<Rightarrow> (string \<times> pyval) list \<Rightarrow> error + SimIssueRow option" where
  "issue_fields obj meta =
     (case getitem (PDict meta) ''identifier'' of
        Inl e \<Rightarrow> Inl e
      | Inr item \<Rightarrow>
          (case is_meta_item item of
             Inl e \<Rightarrow> Inl e
           | Inr skip \<Rightarrow>
               if skip then Inr None
               else
                 (case getitem (PDict meta) ''sim_pubid'' of
                    Inl e \<Rightarrow> Inl e
                  | Inr pubid \<Rightarrow>
                      (case issue_year meta of
                         Inl e \<Rightarrow> Inl e
                       | Inr yr \<Rightarrow>
                           (case page_range obj of
                              Inl e \<Rightarrow> Inl e
                            | Inr (fp, lp) \<Rightarrow>
                                Inr (Some \<lparr>issue_item = item,
                                           SimIssueRow.sim_pubid = pubid,
                                           SimIssueRow.year = yr,
                                           SimIssueRow.volume = dict_get meta ''volume'',
                                           issue = dict_get meta ''issue'',
                                           first_page = fp,
                                           last_page = lp,
                                           SimIssueRow.release_count = PNone\<rparr>))))))"

text \<open>
  Lines 213 to 217: the count is asked for only when year, volume and issue are all
  true and the container id that \<open>pubid2container\<close> returns is true.
\<close>

definition issue_release_count :: "es_client \<Rightarrow> IssueDB \<Rightarrow> SimIssueRow \<Rightarrow> (error + pyval) \<times> IssueDB" where
  "issue_release_count es self row =
     (if truthy (SimIssueRow.year row) \<and> truthy (SimIssueRow.volume row) \<and> truthy (issue row) then
        (case pubid2container self (SimIssueRow.sim_pubid row) of
           (Inl e, self1) \<Rightarrow> (Inl e, self1)
         | (Inr container_id, self1) \<Rightarrow>
             if truthy container_id then
               (case es_issue_count es container_id (SimIssueRow.year row) (SimIssueRow.volume row) (issue row) of
                  Inl e \<Rightarrow>
                    (Inl e, log (Count ''fatcat_release''
                       (issue_filters container_id (SimIssueRow.year row) (SimIssueRow.volume row) (issue row))) self1)
                | Inr n \<Rightarrow>
                    (Inr (PInt n), log (Count ''fatcat_release''
                       (issue_filters container_id (SimIssueRow.year row) (SimIssueRow.volume row) (issue row))) self1))
             else (Inr PNone, self1))
      else (Inr PNone, self))"

text \<open>Lines 183 to 229, the body of the loop; then the loop and the commit of line 231.\<close>

definition load_issues_line :: "decoder \<Rightarrow> es_client \<Rightarrow> IssueDB \<Rightarrow> string \<Rightarrow> (error + unit) \<times> IssueDB" where
  "load_issues_line dec es self line =
     (if line = [] then (Inr (), self)
      else
        (case read_record dec line of
           Inl e \<Rightarrow> (Inl e, self)
         | Inr (obj, meta) \<Rightarrow>
             (case issue_fields obj meta of
                Inl e \<Rightarrow> (Inl e, self)
              | Inr None \<Rightarrow> (Inr (), self)
              | Inr (Some row) \<Rightarrow>
                  (case issue_release_count es self row of
                     (Inl e, self1) \<Rightarrow> (Inl e, self1)
                   | (Inr count, self1) \<Rightarrow>
                       insert_sim_issue self1 (row\<lparr>SimIssueRow.release_count := count\<rparr>)))))"

fun load_issues_loop :: "decoder \<Rightarrow> es_client \<Rightarrow> IssueDB \<Rightarrow> string list \<Rightarrow> (error + unit) \<times> IssueDB" where
  "load_issues_loop dec es self [] = (Inr (), self)"
| "load_issues_loop dec es self (line # json_lines) =
     (case load_issues_line dec es self line of
        (Inl e, self1) \<Rightarrow> (Inl e, self1)
      | (Inr _, self1) \<Rightarrow> load_issues_loop dec es self1 json_lines)"

definition load_issues :: "decoder \<Rightarrow> es_client \<Rightarrow> IssueDB \<Rightarrow> string list \<Rightarrow> (error + unit) \<times> IssueDB" where
  "load_issues dec es self json_lines =
     (case load_issues_loop dec es self json_lines of
        (Inl e, self1) \<Rightarrow> (Inl e, self1)
      | (Inr _, self1) \<Rightarrow> (Inr (), commit self1))"

section \<open>What a run is observed by\<close>

text \<open>
  The number of commits in a log, the catalog lookups and the count queries in it, and
  the cache entry that a resolution of a publication id would read.
\<close>

definition commits :: "event list \<Rightarrow> nat" where
  "commits evs = length (filter (\<lambda>ev. ev = Commit) evs)"

fun is_lookup :: "event \<Rightarrow> bool" where
  "is_lookup (LookupContainer i) = True"
| "is_lookup _ = False"

fun is_count :: "event \<Rightarrow> bool" where
  "is_count (Count idx fs) = True"
| "is_count _ = False"

definition cached :: "IssueDB \<Rightarrow> pyval \<Rightarrow> pyval option" where
  "cached self pubid =
     (case hash_key pubid of None \<Rightarrow> None | Some k \<Rightarrow> pubid2container_map self k)"

text \<open>
  The container id that resolving a publication id in a state yields, when the
  resolution returns one that is true.
\<close>

definition resolved :: "IssueDB \<Rightarrow> pyval \<Rightarrow> pyval option" where
  "resolved self pubid =
     (case fst (pubid2container self pubid) of
        Inl e \<Rightarrow> None
      | Inr container_id \<Rightarrow> if truthy container_id then Some container_id else None)"

text \<open>The number that a string of decimal digits denotes.\<close>

definition decimal_value :: "string \<Rightarrow> int" where
  "decimal_value s = foldl (\<lambda>a c. 10 * a + digit_val c) 0 s"

section \<open>Example inputs\<close>

text \<open>
  Concrete lines, the documents they decode to, and stand-ins for the collaborators, on
  which the theorems below are exercised. The store starts empty, with the columns and
  keys that the row classes suggest: nine columns keyed by \<^verbatim>\<open>sim_pubid\<close>, eight keyed by
  \<^verbatim>\<open>issue_item\<close>, and five keyed by publication, year and volume.
\<close>

definition decode_table :: "(string \<times> pyval) list \<Rightarrow> decoder" where
  "decode_table tbl s = (case map_of tbl s of None \<Rightarrow> Inl JSONDecodeError | Some v \<Rightarrow> Inr v)"

definition empty_store :: tables where
  "empty_store =
     \<lparr>sim_pub = \<lparr>ncols = 9, pkey = [0], rows = []\<rparr>,
      sim_issue = \<lparr>ncols = 8, pkey = [0], rows = []\<rparr>,
      release_counts = \<lparr>ncols = 5, pkey = [0, 1, 2], rows = []\<rparr>\<rparr>"

definition pub_line :: string where
  \<open>pub_line = ''{"metadata": {"collection": ["periodicals"], "sim_pubid": "1234", "identifier": "pub_foo", "title": "Foo", "issn": "1234-5678"}}''\<close>

definition pub_meta :: "(string \<times> pyval) list" where
  "pub_meta =
     [(''collection'', PList [PStr ''periodicals'']), (''sim_pubid'', PStr ''1234''),
      (''identifier'', PStr ''pub_foo''), (''title'', PStr ''Foo''), (''issn'', PStr ''1234-5678'')]"

definition issue_line :: string where
  \<open>issue_line = ''{"metadata": {"collection": ["periodicals"], "sim_pubid": "1234", "identifier": "foo_1998-03", "date": "1998-03-01", "volume": "12", "issue": "3"}, "page_numbers": {"pages": [{"pageNumber": "12"}, {"pageNumber": "ii"}, {"pageNumber": ""}, {"pageNumber": "14"}]}}''\<close>

definition issue_meta :: "string \<Rightarrow> string \<Rightarrow> (string \<times> pyval) list" where
  "issue_meta item date =
     [(''collection'', PList [PStr ''periodicals'']), (''sim_pubid'', PStr ''1234''),
      (''identifier'', PStr item), (''date'', PStr date), (''volume'', PStr ''12''),
      (''issue'', PStr ''3'')]"

definition page_list :: "string list \<Rightarrow> pyval" where
  "page_list ps = PDict [(''pages'', PList (map (\<lambda>p. PDict [(''pageNumber'', PStr p)]) ps))]"

definition year0_line :: string where
  \<open>year0_line = ''{"metadata": {"collection": ["periodicals"], "sim_pubid": "1234", "identifier": "foo_0000-01", "date": "0000-01-01", "volume": "12", "issue": "3"}}''\<close>

definition index_line :: string where
  \<open>index_line = ''{"metadata": {"collection": ["periodicals"], "sim_pubid": "1234", "identifier": "foo_1998-03_index", "date": "1998-03-01", "volume": "12", "issue": "3"}}''\<close>

definition empty_volume_line :: string where
  \<open>empty_volume_line = ''{"metadata": {"collection": ["periodicals"], "sim_pubid": "1234", "identifier": "foo_1999-01", "date": "1999-01-01", "volume": "", "issue": "3"}}''\<close>

definition empty_volume_meta :: "(string \<times> pyval) list" where
  "empty_volume_meta =
     [(''collection'', PList [PStr ''periodicals'']), (''sim_pubid'', PStr ''1234''),
      (''identifier'', PStr ''foo_1999-01''), (''date'', PStr ''1999-01-01''),
      (''volume'', PStr []), (''issue'', PStr ''3'')]"

text \<open>A line whose only page number is the superscript two, U+00B2.\<close>

definition superscript_line :: string where
  \<open>superscript_line = ''{"metadata": {"collection": ["periodicals"], "sim_pubid": "1234", "identifier": "foo_1998-04", "date": "1998-04-01", "volume": "12", "issue": "3"}, "page_numbers": {"pages": [{"pageNumber": "'' @ [CHR 0xB2] @ ''"}]}}''\<close>

definition docs :: decoder where
  "docs = decode_table
     [(pub_line, PDict [(''metadata'', PDict pub_meta)]),
      (issue_line, PDict [(''metadata'', PDict (issue_meta ''foo_1998-03'' ''1998-03-01'')),
         (''page_numbers'', page_list [''12'', ''ii'', [], ''14''])]),
      (year0_line, PDict [(''metadata'', PDict (issue_meta ''foo_0000-01'' ''0000-01-01''))]),
      (index_line, PDict [(''metadata'', PDict (issue_meta ''foo_1998-03_index'' ''1998-03-01''))]),
      (empty_volume_line, PDict [(''metadata'', PDict empty_volume_meta)]),
      (superscript_line, PDict [(''metadata'', PDict (issue_meta ''foo_1998-04'' ''1998-04-01'')),
         (''page_numbers'', page_list [[CHR 0xB2]])])]"

text \<open>
  The decoder for the lines of a file, which end in a line feed: the publication line
  decodes to the same document.
\<close>

definition file_docs :: decoder where
  "file_docs = decode_table [(pub_line @ [CHR 0x0A], PDict [(''metadata'', PDict pub_meta)])]"

text \<open>
  A catalog that knows one ISSN (its entity has no Wikidata id) and answers 404 for
  every other, a catalog that answers 404 always, a catalog that is down, and a search
  index that counts seven releases.
\<close>

definition catalog :: api_client where
  "catalog i =
     (if i = PStr ''1234-5678''
      then Inr \<lparr>issnl = PStr ''1234-5678'', ident = PStr ''abc123'', wikidata_qid = PNone\<rparr>
      else Inl (ApiException (Some 404)))"

definition catalog_404 :: api_client where
  "catalog_404 i = Inl (ApiException (Some 404))"

definition catalog_down :: api_client where
  "catalog_down i = Inl (ApiException (Some 503))"

definition index7 :: es_client where
  "index7 idx fs = Inr 7"

text \<open>The store after the example publication has been ingested and committed.\<close>

definition with_pub :: tables where
  "with_pub = stored (snd (load_pubs docs catalog (init empty_store) [pub_line]))"

section \<open>What one line and one loop leave untouched\<close>

lemma insert_sim_pub_frame:
  "insert_sim_pub self row = (r, s) \<Longrightarrow>
     stored s = stored self \<and> calls s = calls self \<and>
     pubid2container_map s = pubid2container_map self \<and>
     sim_issue (db s) = sim_issue (db self) \<and> release_counts (db s) = release_counts (db self) \<and>
     ncols (sim_pub (db s)) = ncols (sim_pub (db self)) \<and>
     pkey (sim_pub (db s)) = pkey (sim_pub (db self))"
  by (auto simp: insert_sim_pub_def insert_or_replace_def split: sum.splits if_splits)

lemma insert_sim_issue_frame:
  "insert_sim_issue self row = (r, s) \<Longrightarrow>
     stored s = stored self \<and> calls s = calls self \<and>
     pubid2container_map s = pubid2container_map self \<and>
     sim_pub (db s) = sim_pub (db self) \<and> release_counts (db s) = release_counts (db self) \<and>
     ncols (sim_issue (db s)) = ncols (sim_issue (db self)) \<and>
     pkey (sim_issue (db s)) = pkey (sim_issue (db self))"
  by (auto simp: insert_sim_issue_def insert_or_replace_def split: sum.splits if_splits)

lemma lookup_container_frame:
  "lookup_container api meta self = (r, s) \<Longrightarrow>
     stored s = stored self \<and> db s = db self \<and>
     pubid2container_map s = pubid2container_map self \<and>
     commits (calls s) = commits (calls self)"
  by (auto simp: lookup_container_def log_def commits_def split: if_splits)

lemma pubid2container_frame:
  "pubid2container self k = (r, s) \<Longrightarrow>
     stored s = stored self \<and> db s = db self \<and> commits (calls s) = commits (calls self) \<and>
     filter is_lookup (calls s) = filter is_lookup (calls self) \<and>
     filter is_count (calls s) = filter is_count (calls self)"
  by (auto simp: pubid2container_def log_def commits_def
      split: option.splits sum.splits list.splits)

lemma issue_release_count_frame:
  "issue_release_count es self row = (r, s) \<Longrightarrow>
     stored s = stored self \<and> db s = db self \<and> commits (calls s) = commits (calls self) \<and>
     filter is_lookup (calls s) = filter is_lookup (calls self)"
  by (auto simp: issue_release_count_def log_def commits_def
      split: if_splits prod.splits sum.splits dest!: pubid2container_frame)

lemma load_pubs_line_frame:
  "load_pubs_line dec api self line = (r, s) \<Longrightarrow>
     stored s = stored self \<and> commits (calls s) = commits (calls self) \<and>
     pubid2container_map s = pubid2container_map self \<and>
     ncols (sim_pub (db s)) = ncols (sim_pub (db self)) \<and>
     pkey (sim_pub (db s)) = pkey (sim_pub (db self))"
  unfolding load_pubs_line_def
  by (auto split: if_splits sum.splits prod.splits
      dest!: lookup_container_frame insert_sim_pub_frame)

lemma load_pubs_loop_frame:
  "load_pubs_loop dec api self ls = (r, s) \<Longrightarrow>
     stored s = stored self \<and> commits (calls s) = commits (calls self) \<and>
     pubid2container_map s = pubid2container_map self \<and>
     ncols (sim_pub (db s)) = ncols (sim_pub (db self)) \<and>
     pkey (sim_pub (db s)) = pkey (sim_pub (db self))"
proof (induction ls arbitrary: self)
  case Nil
  then show ?case by simp
next
  case (Cons line ls)
  obtain r1 s1 where step: "load_pubs_line dec api self line = (r1, s1)"
    by (cases "load_pubs_line dec api self line")
  note f = load_pubs_line_frame [OF step]
  show ?case
  proof (cases r1)
    case (Inl e)
    with Cons.prems step f show ?thesis by simp
  next
    case (Inr u)
    with Cons.prems step have "load_pubs_loop dec api s1 ls = (r, s)" by simp
    from Cons.IH [OF this] f show ?thesis by simp
  qed
qed

lemma load_issues_line_frame:
  "load_issues_line dec es self line = (r, s) \<Longrightarrow>
     stored s = stored self \<and> commits (calls s) = commits (calls self) \<and>
     filter is_lookup (calls s) = filter is_lookup (calls self) \<and>
     sim_pub (db s) = sim_pub (db self) \<and>
     ncols (sim_issue (db s)) = ncols (sim_issue (db self)) \<and>
     pkey (sim_issue (db s)) = pkey (sim_issue (db self))"
  unfolding load_issues_line_def
  by (auto split: if_splits sum.splits prod.splits option.splits
      dest!: issue_release_count_frame insert_sim_issue_frame)

lemma load_issues_loop_frame:
  "load_issues_loop dec es self ls = (r, s) \<Longrightarrow>
     stored s = stored self \<and> commits (calls s) = commits (calls self) \<and>
     filter is_lookup (calls s) = filter is_lookup (calls self) \<and>
     sim_pub (db s) = sim_pub (db self) \<and>
     ncols (sim_issue (db s)) = ncols (sim_issue (db self)) \<and>
     pkey (sim_issue (db s)) = pkey (sim_issue (db self))"
proof (induction ls arbitrary: self)
  case Nil
  then show ?case by simp
next
  case (Cons line ls)
  obtain r1 s1 where step: "load_issues_line dec es self line = (r1, s1)"
    by (cases "load_issues_line dec es self line")
  note f = load_issues_line_frame [OF step]
  show ?case
  proof (cases r1)
    case (Inl e)
    with Cons.prems step f show ?thesis by simp
  next
    case (Inr u)
    with Cons.prems step have "load_issues_loop dec es s1 ls = (r, s)" by simp
    from Cons.IH [OF this] f show ?thesis by simp
  qed
qed

lemma commits_commit: "commits (calls (commit s)) = Suc (commits (calls s))"
  by (simp add: commit_def log_def commits_def)

section \<open>What one line writes\<close>

lemma bind_params_nth:
  "bind_params ps = Inr vs \<Longrightarrow>
     length vs = length ps \<and> (\<forall>i<length ps. bind_param (ps ! i) = Inr (vs ! i))"
proof (induction ps arbitrary: vs)
  case Nil
  then show ?case by simp
next
  case (Cons p ps)
  then obtain v ws where v: "bind_param p = Inr v" and ws: "bind_params ps = Inr ws"
    and vs: "vs = v # ws"
    by (auto split: sum.splits)
  from Cons.IH [OF ws] v vs show ?case
    by (auto simp: nth_Cons split: nat.splits)
qed

lemma load_pubs_line_writes:
  assumes "load_pubs_line dec api self line = (Inr u, s)" and "line \<noteq> []"
  shows "\<exists>obj meta container row vs.
     read_record dec line = Inr (obj, meta) \<and> container_of api meta = Inr container \<and>
     pub_row meta container = Inr row \<and> bind_params (SimPubRow_tuple row) = Inr vs \<and>
     rows (sim_pub (db s)) =
       filter (\<lambda>r. \<not> conflicts (pkey (sim_pub (db self))) r vs) (rows (sim_pub (db self))) @ [vs]"
  using assms unfolding load_pubs_line_def
  by (auto simp: lookup_container_def insert_sim_pub_def insert_or_replace_def log_def
      split: sum.splits prod.splits if_splits)

lemma load_issues_line_writes:
  assumes "load_issues_line dec es self line = (Inr u, s)" and "line \<noteq> []"
  shows "\<exists>obj meta. read_record dec line = Inr (obj, meta) \<and>
     (case issue_fields obj meta of
        Inl e \<Rightarrow> False
      | Inr None \<Rightarrow> s = self
      | Inr (Some row) \<Rightarrow>
          (\<exists>count s1 vs. issue_release_count es self row = (Inr count, s1) \<and>
             bind_params (SimIssueRow_tuple (row\<lparr>SimIssueRow.release_count := count\<rparr>)) = Inr vs \<and>
             rows (sim_issue (db s)) =
               filter (\<lambda>r. \<not> conflicts (pkey (sim_issue (db self))) r vs) (rows (sim_issue (db self))) @ [vs]))"
proof -
  from assms obtain obj meta where rr: "read_record dec line = Inr (obj, meta)"
    by (auto simp: load_issues_line_def split: sum.splits)
  show ?thesis
  proof (cases "issue_fields obj meta")
    case (Inl e)
    with assms rr show ?thesis by (simp add: load_issues_line_def)
  next
    case (Inr f)
    show ?thesis
    proof (cases f)
      case None
      with assms rr Inr show ?thesis by (simp add: load_issues_line_def)
    next
      case (Some row)
      with assms rr Inr obtain count s1 where
        rc: "issue_release_count es self row = (Inr count, s1)"
        and ins: "insert_sim_issue s1 (row\<lparr>SimIssueRow.release_count := count\<rparr>) = (Inr u, s)"
        by (auto simp: load_issues_line_def split: prod.splits sum.splits)
      from issue_release_count_frame [OF rc] have d: "db s1 = db self" by simp
      from ins d obtain vs where
        "bind_params (SimIssueRow_tuple (row\<lparr>SimIssueRow.release_count := count\<rparr>)) = Inr vs"
        "rows (sim_issue (db s)) =
           filter (\<lambda>r. \<not> conflicts (pkey (sim_issue (db self))) r vs) (rows (sim_issue (db self))) @ [vs]"
        by (auto simp: insert_sim_issue_def insert_or_replace_def split: sum.splits if_splits)
      with rr Inr Some rc show ?thesis by auto
    qed
  qed
qed

section \<open>The release count of an issue\<close>

lemma insert_sim_issue_calls: "calls (snd (insert_sim_issue s row)) = calls s"
  by (simp add: insert_sim_issue_def split: sum.splits)

lemma issue_release_count_counts:
  "filter is_count (calls (snd (issue_release_count es self row))) =
     filter is_count (calls self) @
       (case resolved self (SimIssueRow.sim_pubid row) of
          None \<Rightarrow> []
        | Some c \<Rightarrow>
            if truthy (SimIssueRow.year row) \<and> truthy (SimIssueRow.volume row) \<and> truthy (issue row)
            then [Count ''fatcat_release''
                    (issue_filters c (SimIssueRow.year row) (SimIssueRow.volume row) (issue row))]
            else [])"
proof -
  obtain r1 s1 where p: "pubid2container self (SimIssueRow.sim_pubid row) = (r1, s1)"
    by (cases "pubid2container self (SimIssueRow.sim_pubid row)")
  from pubid2container_frame [OF p]
  have c: "filter is_count (calls s1) = filter is_count (calls self)" by simp
  show ?thesis
    using p c
    by (cases r1)
      (auto simp: issue_release_count_def resolved_def log_def split: sum.splits option.splits)
qed

lemma issue_release_count_none:
  assumes "issue_release_count es self row = (Inr count, s)"
    and "\<not> (truthy (SimIssueRow.year row) \<and> truthy (SimIssueRow.volume row) \<and> truthy (issue row) \<and>
            resolved self (SimIssueRow.sim_pubid row) \<noteq> None)"
  shows "count = PNone"
  using assms
  by (auto simp: issue_release_count_def resolved_def split: if_splits prod.splits sum.splits)

lemma issue_release_count_some:
  assumes "issue_release_count es self row = (Inr count, s)"
    and "truthy (SimIssueRow.year row) \<and> truthy (SimIssueRow.volume row) \<and> truthy (issue row)"
    and "resolved self (SimIssueRow.sim_pubid row) = Some c"
  shows "\<exists>n. es_issue_count es c (SimIssueRow.year row) (SimIssueRow.volume row) (issue row) = Inr n \<and>
      count = PInt n"
  using assms
  by (auto simp: issue_release_count_def resolved_def split: if_splits prod.splits sum.splits)

text \<open>
  C1, as the code has it. Take an issue line that is not skipped and whose fields are
  read without an exception. Processing it asks the search index for a count exactly
  when year, volume and issue are all true and the container id that
  \<open>pubid2container\<close> returns is true, and then once, under these four values. When the
  line is stored, its release count is the number the index answered in that case, and
  \<^verbatim>\<open>None\<close> in every other.
\<close>

theorem count_query_iff_all_true:
  assumes "line \<noteq> []"
    and "read_record dec line = Inr (obj, meta)"
    and "issue_fields obj meta = Inr (Some row)"
  shows "filter is_count (calls (snd (load_issues_line dec es self line))) =
       filter is_count (calls self) @
         (case resolved self (SimIssueRow.sim_pubid row) of
            None \<Rightarrow> []
          | Some c \<Rightarrow>
              if truthy (SimIssueRow.year row) \<and> truthy (SimIssueRow.volume row) \<and> truthy (issue row)
              then [Count ''fatcat_release''
                      (issue_filters c (SimIssueRow.year row) (SimIssueRow.volume row) (issue row))]
              else []) \<and>
     (load_issues_line dec es self line = (Inr u, s) \<longrightarrow>
        (if truthy (SimIssueRow.year row) \<and> truthy (SimIssueRow.volume row) \<and> truthy (issue row) \<and>
            resolved self (SimIssueRow.sim_pubid row) \<noteq> None
         then \<exists>c n. resolved self (SimIssueRow.sim_pubid row) = Some c \<and>
                es_issue_count es c (SimIssueRow.year row) (SimIssueRow.volume row) (issue row) = Inr n \<and>
                col (last (rows (sim_issue (db s)))) 7 = PInt n
         else col (last (rows (sim_issue (db s)))) 7 = PNone))"
proof (intro conjI impI)
  obtain r1 s1 where rc: "issue_release_count es self row = (r1, s1)"
    by (cases "issue_release_count es self row")
  with assms have "calls (snd (load_issues_line dec es self line)) = calls s1"
    by (cases r1) (simp_all add: load_issues_line_def insert_sim_issue_calls)
  with issue_release_count_counts [of es self row] rc
  show "filter is_count (calls (snd (load_issues_line dec es self line))) =
       filter is_count (calls self) @
         (case resolved self (SimIssueRow.sim_pubid row) of
            None \<Rightarrow> []
          | Some c \<Rightarrow>
              if truthy (SimIssueRow.year row) \<and> truthy (SimIssueRow.volume row) \<and> truthy (issue row)
              then [Count ''fatcat_release''
                      (issue_filters c (SimIssueRow.year row) (SimIssueRow.volume row) (issue row))]
              else [])"
    by simp
next
  assume ok: "load_issues_line dec es self line = (Inr u, s)"
  from load_issues_line_writes [OF ok assms(1)] assms(2,3)
  obtain count s1 vs where rc: "issue_release_count es self row = (Inr count, s1)"
    and vs: "bind_params (SimIssueRow_tuple (row\<lparr>SimIssueRow.release_count := count\<rparr>)) = Inr vs"
    and rows: "rows (sim_issue (db s)) =
       filter (\<lambda>r. \<not> conflicts (pkey (sim_issue (db self))) r vs) (rows (sim_issue (db self))) @ [vs]"
    by auto
  from rows have l: "last (rows (sim_issue (db s))) = vs" by simp
  from bind_params_nth [OF vs] have len: "length vs = 8"
    and nth: "\<And>i. i < 8 \<Longrightarrow>
      bind_param (SimIssueRow_tuple (row\<lparr>SimIssueRow.release_count := count\<rparr>) ! i) = Inr (vs ! i)"
    by (simp_all add: SimIssueRow_tuple_def)
  from nth [of 7] len have b: "bind_param count = Inr (col vs 7)"
    by (simp add: SimIssueRow_tuple_def col_def)
  show "if truthy (SimIssueRow.year row) \<and> truthy (SimIssueRow.volume row) \<and> truthy (issue row) \<and>
            resolved self (SimIssueRow.sim_pubid row) \<noteq> None
         then \<exists>c n. resolved self (SimIssueRow.sim_pubid row) = Some c \<and>
                es_issue_count es c (SimIssueRow.year row) (SimIssueRow.volume row) (issue row) = Inr n \<and>
                col (last (rows (sim_issue (db s)))) 7 = PInt n
         else col (last (rows (sim_issue (db s)))) 7 = PNone"
  proof (cases "truthy (SimIssueRow.year row) \<and> truthy (SimIssueRow.volume row) \<and> truthy (issue row) \<and>
            resolved self (SimIssueRow.sim_pubid row) \<noteq> None")
    case True
    then obtain c where c: "resolved self (SimIssueRow.sim_pubid row) = Some c" by auto
    from issue_release_count_some [OF rc _ c] True obtain n where
      n: "es_issue_count es c (SimIssueRow.year row) (SimIssueRow.volume row) (issue row) = Inr n"
      and cn: "count = PInt n"
      by auto
    from b cn have "col vs 7 = PInt n" by (auto split: if_splits)
    with True c n l show ?thesis by auto
  next
    case False
    from issue_release_count_none [OF rc False] b have "col vs 7 = PNone" by simp
    with False l show ?thesis by simp
  qed
qed

theorem count_query_iff_all_true_witness:
  "issue_line \<noteq> [] \<and>
   read_record docs issue_line =
     Inr ([(''metadata'', PDict (issue_meta ''foo_1998-03'' ''1998-03-01'')),
           (''page_numbers'', page_list [''12'', ''ii'', [], ''14''])],
          issue_meta ''foo_1998-03'' ''1998-03-01'') \<and>
   issue_fields [(''metadata'', PDict (issue_meta ''foo_1998-03'' ''1998-03-01'')),
           (''page_numbers'', page_list [''12'', ''ii'', [], ''14''])]
          (issue_meta ''foo_1998-03'' ''1998-03-01'') =
     Inr (Some \<lparr>issue_item = PStr ''foo_1998-03'', sim_pubid = PStr ''1234'', year = PInt 1998,
        volume = PStr ''12'', issue = PStr ''3'', first_page = PInt 12, last_page = PInt 14,
        release_count = PNone\<rparr>) \<and>
   resolved (init with_pub) (PStr ''1234'') = Some (PStr ''abc123'') \<and>
   fst (load_issues_line docs index7 (init with_pub) issue_line) = Inr () \<and>
   filter is_count (calls (snd (load_issues_line docs index7 (init with_pub) issue_line))) =
     [Count ''fatcat_release'' [(''container_id'', PStr ''abc123''), (''year'', PInt 1998),
        (''volume'', PStr ''12''), (''issue'', PStr ''3'')]] \<and>
   col (last (rows (sim_issue (db (snd (load_issues_line docs index7 (init with_pub) issue_line)))))) 7 =
     PInt 7"
proof -
  have a: "issue_line \<noteq> []" by (simp add: issue_line_def)
  have b: "read_record docs issue_line =
     Inr ([(''metadata'', PDict (issue_meta ''foo_1998-03'' ''1998-03-01'')),
           (''page_numbers'', page_list [''12'', ''ii'', [], ''14''])],
          issue_meta ''foo_1998-03'' ''1998-03-01'')"
    by code_simp
  have c: "issue_fields [(''metadata'', PDict (issue_meta ''foo_1998-03'' ''1998-03-01'')),
           (''page_numbers'', page_list [''12'', ''ii'', [], ''14''])]
          (issue_meta ''foo_1998-03'' ''1998-03-01'') =
     Inr (Some \<lparr>issue_item = PStr ''foo_1998-03'', sim_pubid = PStr ''1234'', year = PInt 1998,
        volume = PStr ''12'', issue = PStr ''3'', first_page = PInt 12, last_page = PInt 14,
        release_count = PNone\<rparr>)"
    by code_simp
  have d: "resolved (init with_pub) (PStr ''1234'') = Some (PStr ''abc123'')"
    by code_simp
  have e: "fst (load_issues_line docs index7 (init with_pub) issue_line) = Inr ()"
    by code_simp
  then have e': "load_issues_line docs index7 (init with_pub) issue_line =
      (Inr (), snd (load_issues_line docs index7 (init with_pub) issue_line))"
    by (simp add: prod_eq_iff)
  note t = count_query_iff_all_true [OF a b c, of index7 "init with_pub"]
  from t [THEN conjunct1] d
  have f: "filter is_count (calls (snd (load_issues_line docs index7 (init with_pub) issue_line))) =
     [Count ''fatcat_release'' [(''container_id'', PStr ''abc123''), (''year'', PInt 1998),
        (''volume'', PStr ''12''), (''issue'', PStr ''3'')]]"
    by (simp add: init_def issue_filters_def)
  from t [THEN conjunct2, rule_format, OF e'] d
  have g: "col (last (rows (sim_issue (db (snd (load_issues_line docs index7 (init with_pub) issue_line)))))) 7 =
     PInt 7"
    by (auto simp: es_issue_count_def index7_def)
  from a b c d e f g show ?thesis by blast
qed

text \<open>
  The claim as it was stated fails on an issue dated in the year 0000 and on an issue
  whose volume is the empty string: the publication has a container, year, volume and
  issue are all stored, and yet no count is asked for and the release count is
  \<^verbatim>\<open>None\<close>.
\<close>

theorem count_query_counterexample:
  "resolved (init with_pub) (PStr ''1234'') = Some (PStr ''abc123'') \<and>
   fst (load_issues docs index7 (init with_pub) [year0_line, empty_volume_line]) = Inr () \<and>
   rows (sim_issue (stored (snd (load_issues docs index7 (init with_pub) [year0_line, empty_volume_line])))) =
     [[PStr ''foo_0000-01'', PStr ''1234'', PInt 0, PStr ''12'', PStr ''3'', PNone, PNone, PNone],
      [PStr ''foo_1999-01'', PStr ''1234'', PInt 1999, PStr [], PStr ''3'', PNone, PNone, PNone]] \<and>
   filter is_count (calls (snd (load_issues docs index7 (init with_pub) [year0_line, empty_volume_line]))) = []"
  by code_simp

section \<open>The page range of an issue\<close>

text \<open>
  On page numbers that are strings, each of them empty, or rejected by \<^verbatim>\<open>isdigit\<close>, or
  made of at most 4300 ASCII digits only, lines 204 to 211 do what is expected of them: no
  exception, both pages \<^verbatim>\<open>None\<close> when no page number is all digits, and otherwise the
  least and the greatest of the numbers they denote.
\<close>

lemma decimal_not_special:
  "isdecimal_char c \<Longrightarrow> \<not> int_space_char c \<and> c \<noteq> CHR ''_'' \<and> c \<noteq> CHR ''-'' \<and> c \<noteq> CHR ''+''"
  by (auto simp: isdecimal_char_def int_space_char_def)

lemma digits_decimal:
  "list_all isdecimal_char ds \<Longrightarrow> digits ds acc = Inr (foldl (\<lambda>a c. 10 * a + digit_val c) acc ds)"
  by (induction ds acc rule: digits.induct) (auto dest: decimal_not_special)

lemma strip_decimal:
  assumes "list_all isdecimal_char s"
  shows "strip s = s"
proof (cases s rule: rev_cases)
  case Nil
  then show ?thesis by (simp add: strip_def)
next
  case (snoc ys y)
  with assms have "\<not> int_space_char y" by (auto dest: decimal_not_special)
  moreover have "dropWhile int_space_char s = s"
    using assms by (cases s) (auto dest: decimal_not_special)
  ultimately show ?thesis using snoc by (simp add: strip_def)
qed

lemma py_int_decimal:
  assumes "s \<noteq> []" and "list_all isdecimal_char s" and "length s \<le> int_max_str_digits"
  shows "py_int s = Inr (decimal_value s)"
proof -
  from assms obtain d ds where s: "s = d # ds" by (cases s) auto
  with assms have d: "isdecimal_char d" and ds: "list_all isdecimal_char ds" by auto
  from strip_decimal [OF assms(2)] s have st: "strip (d # ds) = d # ds" by simp
  have "length (filter isdecimal_char s) \<le> length s" by simp
  with assms(3) have few: "\<not> int_max_str_digits < length (filter isdecimal_char (d # ds))"
    unfolding s by linarith
  from decimal_not_special [OF d] d digits_decimal [OF ds]
  have "unsigned_int (d # ds) = Inr (decimal_value (d # ds))"
    unfolding unsigned_int_def using few by (simp add: decimal_value_def)
  with decimal_not_special [OF d] show ?thesis
    by (simp add: py_int_def st s)
qed

lemma page_numbers_strings:
  "page_numbers (map (\<lambda>p. PDict [(''pageNumber'', PStr p)]) strs) =
     Inr (map PStr (filter (\<lambda>s. s \<noteq> []) strs))"
  by (induction strs) auto

lemma page_ints_decimal:
  "list_all (\<lambda>s. str_isdigit s \<longrightarrow>
       list_all isdecimal_char s \<and> length s \<le> int_max_str_digits) ss \<Longrightarrow>
     page_ints (map PStr ss) = Inr (map decimal_value (filter str_isdigit ss))"
  by (induction ss) (auto simp: py_int_decimal str_isdigit_def)

lemma first_last_min_max:
  "first_last ns = (if ns = [] then (PNone, PNone) else (PInt (Min (set ns)), PInt (Max (set ns))))"
proof (cases ns)
  case Nil
  then show ?thesis by (simp add: first_last_def)
next
  case (Cons n ms)
  then show ?thesis
    by (simp add: first_last_def list_min_def list_max_def Min.set_eq_fold Max.set_eq_fold
        del: set_simps)
qed

lemma page_range_decimal:
  assumes "dict_get obj ''page_numbers'' = page_list strs"
    and "list_all (\<lambda>s. str_isdigit s \<longrightarrow>
       list_all isdecimal_char s \<and> length s \<le> int_max_str_digits) strs"
  shows "page_range obj =
     Inr (if filter str_isdigit strs = [] then (PNone, PNone)
          else (PInt (Min (decimal_value ` set (filter str_isdigit strs))),
                PInt (Max (decimal_value ` set (filter str_isdigit strs)))))"
proof -
  have "list_all (\<lambda>s. str_isdigit s \<longrightarrow>
       list_all isdecimal_char s \<and> length s \<le> int_max_str_digits) (filter (\<lambda>s. s \<noteq> []) strs)"
    using assms(2) by (auto simp: list_all_iff)
  moreover have "filter str_isdigit (filter (\<lambda>s. s \<noteq> []) strs) = filter str_isdigit strs"
    by (induction strs) (auto simp: str_isdigit_def)
  ultimately have "page_ints (map PStr (filter (\<lambda>s. s \<noteq> []) strs)) =
      Inr (map decimal_value (filter str_isdigit strs))"
    using page_ints_decimal [of "filter (\<lambda>s. s \<noteq> []) strs"] by simp
  then show ?thesis
    using assms(1)
    by (simp add: page_range_def page_list_def page_numbers_strings first_last_min_max)
qed

text \<open>
  C2 fails on a page number that \<^verbatim>\<open>isdigit\<close> accepts and \<^verbatim>\<open>int\<close> rejects. The
  superscript two is such a string: it is not made of decimal digits, so it should be
  invisible to the range, but \<^verbatim>\<open>int\<close> raises \<^verbatim>\<open>ValueError\<close> on it and the batch ends
  with nothing stored. The roman numerals and the empty string of the other two
  examples are passed over as the claim says.
\<close>

theorem superscript_page_raises:
  "str_isdigit [CHR 0xB2] \<and> int_of (PStr [CHR 0xB2]) = Inl ValueError \<and>
   page_range [(''page_numbers'', page_list [[CHR 0xB2]])] = Inl ValueError \<and>
   fst (load_issues docs index7 (init with_pub) [superscript_line]) = Inl ValueError \<and>
   rows (sim_issue (db (snd (load_issues docs index7 (init with_pub) [superscript_line])))) = [] \<and>
   page_range [(''page_numbers'', page_list [''12'', ''ii'', [], ''14''])] = Inr (PInt 12, PInt 14) \<and>
   page_range [(''page_numbers'', page_list [''ii'', ''iv''])] = Inr (PNone, PNone)"
  by code_simp

section \<open>The container cache\<close>

lemma cached_cong:
  "pubid2container_map a = pubid2container_map b \<Longrightarrow> cached a k = cached b k"
  by (simp add: cached_def split: option.splits)

lemma pubid2container_keeps:
  "pubid2container self k = (r, s) \<Longrightarrow> cached self k' = Some v \<Longrightarrow> cached s k' = Some v"
  by (auto simp: pubid2container_def log_def cached_def
      split: option.splits sum.splits list.splits)

lemma issue_release_count_keeps:
  assumes "issue_release_count es self row = (r, s)" and "cached self k = Some v"
  shows "cached s k = Some v"
proof (cases "truthy (SimIssueRow.year row) \<and> truthy (SimIssueRow.volume row) \<and> truthy (issue row)")
  case False
  with assms show ?thesis by (auto simp: issue_release_count_def)
next
  case True
  obtain r1 s1 where p: "pubid2container self (SimIssueRow.sim_pubid row) = (r1, s1)"
    by (cases "pubid2container self (SimIssueRow.sim_pubid row)")
  from pubid2container_keeps [OF p assms(2)] have "cached s1 k = Some v" .
  moreover from assms(1) True p have "pubid2container_map s = pubid2container_map s1"
    by (auto simp: issue_release_count_def log_def split: sum.splits if_splits)
  ultimately show ?thesis by (simp add: cached_cong [of s s1])
qed

lemma load_issues_line_keeps:
  assumes "load_issues_line dec es self line = (r, s)" and "cached self k = Some v"
  shows "cached s k = Some v"
proof -
  have same: "pubid2container_map a = pubid2container_map b \<Longrightarrow> cached b k = Some v \<Longrightarrow> cached a k = Some v" for a b
    by (simp add: cached_cong [of a b])
  from assms show ?thesis
    unfolding load_issues_line_def
    by (auto split: if_splits sum.splits prod.splits option.splits
        dest!: insert_sim_issue_frame dest: issue_release_count_keeps same)
qed

lemma load_issues_loop_keeps:
  "load_issues_loop dec es self ls = (r, s) \<Longrightarrow> cached self k = Some v \<Longrightarrow> cached s k = Some v"
proof (induction ls arbitrary: self)
  case Nil
  then show ?case by simp
next
  case (Cons line ls)
  obtain r1 s1 where step: "load_issues_line dec es self line = (r1, s1)"
    by (cases "load_issues_line dec es self line")
  from load_issues_line_keeps [OF step Cons.prems(2)] have c: "cached s1 k = Some v" .
  show ?case
  proof (cases r1)
    case (Inl e)
    with Cons.prems step c show ?thesis by simp
  next
    case (Inr u)
    with Cons.prems step have "load_issues_loop dec es s1 ls = (r, s)" by simp
    from Cons.IH [OF this c] show ?thesis .
  qed
qed

lemma cached_commit: "cached (commit s) k = cached s k"
  by (rule cached_cong) (simp add: commit_def log_def)

lemma is_lookup_commit: "filter is_lookup (calls (commit s)) = filter is_lookup (calls s)"
  by (simp add: commit_def log_def)

lemma load_pubs_line_ignores_cache:
  "load_pubs_line dec api (self\<lparr>pubid2container_map := m\<rparr>) line =
     (fst (load_pubs_line dec api self line),
      (snd (load_pubs_line dec api self line))\<lparr>pubid2container_map := m\<rparr>)"
  by (auto simp: load_pubs_line_def lookup_container_def insert_sim_pub_def log_def
      split: sum.splits prod.splits)

lemma load_pubs_loop_ignores_cache:
  "load_pubs_loop dec api (self\<lparr>pubid2container_map := m\<rparr>) ls =
     (fst (load_pubs_loop dec api self ls),
      (snd (load_pubs_loop dec api self ls))\<lparr>pubid2container_map := m\<rparr>)"
proof (induction ls arbitrary: self)
  case Nil
  then show ?case by simp
next
  case (Cons line ls)
  obtain r1 s1 where step: "load_pubs_line dec api self line = (r1, s1)"
    by (cases "load_pubs_line dec api self line")
  with load_pubs_line_ignores_cache [where dec = dec and api = api and self = self and m = m and line = line]
  have step': "load_pubs_line dec api (self\<lparr>pubid2container_map := m\<rparr>) line =
      (r1, s1\<lparr>pubid2container_map := m\<rparr>)"
    by simp
  show ?case
    using step step' Cons.IH [where self = s1] by (cases r1) simp_all
qed

lemma load_pubs_ignores_cache:
  "load_pubs dec api (self\<lparr>pubid2container_map := m\<rparr>) ls =
     (fst (load_pubs dec api self ls),
      (snd (load_pubs dec api self ls))\<lparr>pubid2container_map := m\<rparr>)"
proof -
  obtain r1 s1 where l: "load_pubs_loop dec api self ls = (r1, s1)"
    by (cases "load_pubs_loop dec api self ls")
  with load_pubs_loop_ignores_cache [where dec = dec and api = api and self = self and m = m and ls = ls]
  have "load_pubs_loop dec api (self\<lparr>pubid2container_map := m\<rparr>) ls =
      (r1, s1\<lparr>pubid2container_map := m\<rparr>)"
    by simp
  with l show ?thesis
    by (cases r1) (simp_all add: load_pubs_def commit_def log_def)
qed

lemma load_pubs_keeps_cache:
  "pubid2container_map (snd (load_pubs dec api self ls)) = pubid2container_map self"
proof -
  obtain r1 s1 where l: "load_pubs_loop dec api self ls = (r1, s1)"
    by (cases "load_pubs_loop dec api self ls")
  from load_pubs_loop_frame [OF l] l show ?thesis
    by (cases r1) (simp_all add: load_pubs_def commit_def log_def)
qed

lemma load_pubs_line_calls:
  assumes "line \<noteq> []" and "read_record dec line = Inr (obj, meta)"
  shows "calls (snd (load_pubs_line dec api self line)) =
     calls self @
       (if truthy (dict_get meta ''issn'') then [LookupContainer (dict_get meta ''issn'')] else [])"
  using assms
  by (auto simp: load_pubs_line_def lookup_container_def log_def insert_sim_pub_def
      split: sum.splits)

lemma pubid2container_uncached:
  assumes "hash_key k \<noteq> None" and "cached self k = None"
  shows "calls (snd (pubid2container self k)) = calls self @ [Select k] \<and>
     fst (pubid2container self k) =
       (case select_container_ident (sim_pub (db self)) k of
          Inl e \<Rightarrow> Inl e
        | Inr [] \<Rightarrow> Inr PNone
        | Inr (v # vs) \<Rightarrow> Inr v)"
  using assms
  by (auto simp: pubid2container_def cached_def log_def split: option.splits sum.splits list.splits)

text \<open>
  C3, as the code has it. \<open>pubid2container\<close> never asks the catalog. A resolution of a
  publication id that is not in the cache reads the table once, and its outcome is the
  container id of the first row found, or \<^verbatim>\<open>None\<close> when there is no row; a resolution
  that returns leaves its outcome in the cache. A publication id that is in the cache
  is answered from it with the state, and so the log, unchanged, and an entry stays in
  the cache through every later resolution and every later batch of either kind. The
  issue pass as a whole adds no catalog lookup to the log. \<open>load_pubs\<close> neither reads the
  cache nor writes it: it leaves it as it is and does the same whatever it holds, and
  every line that is read logs exactly one catalog lookup when its record has a true
  \<^verbatim>\<open>issn\<close>, and none otherwise.
\<close>

theorem resolution_is_cached:
  "(pubid2container self k = (Inr v, s) \<longrightarrow> cached s k = Some v) \<and>
   (hash_key k \<noteq> None \<and> cached self k = None \<longrightarrow>
      calls (snd (pubid2container self k)) = calls self @ [Select k] \<and>
      fst (pubid2container self k) =
        (case select_container_ident (sim_pub (db self)) k of
           Inl e \<Rightarrow> Inl e
         | Inr [] \<Rightarrow> Inr PNone
         | Inr (c # cs) \<Rightarrow> Inr c)) \<and>
   (cached self k = Some v \<longrightarrow>
      pubid2container self k = (Inr v, self) \<and>
      cached (snd (pubid2container self k')) k = Some v \<and>
      cached (snd (load_issues dec es self ls)) k = Some v \<and>
      cached (snd (load_pubs dec api self ls)) k = Some v) \<and>
   filter is_lookup (calls (snd (pubid2container self k))) = filter is_lookup (calls self) \<and>
   filter is_lookup (calls (snd (load_issues dec es self ls))) = filter is_lookup (calls self) \<and>
   pubid2container_map (snd (load_pubs dec api self ls)) = pubid2container_map self \<and>
   load_pubs dec api (self\<lparr>pubid2container_map := m\<rparr>) ls =
     (fst (load_pubs dec api self ls),
      (snd (load_pubs dec api self ls))\<lparr>pubid2container_map := m\<rparr>) \<and>
   (line \<noteq> [] \<and> read_record dec line = Inr (obj, meta) \<longrightarrow>
      calls (snd (load_pubs_line dec api self line)) =
        calls self @
          (if truthy (dict_get meta ''issn'') then [LookupContainer (dict_get meta ''issn'')]
           else []))"
proof (intro conjI impI)
  assume "pubid2container self k = (Inr v, s)"
  then show "cached s k = Some v"
    by (auto simp: pubid2container_def log_def cached_def
        split: option.splits sum.splits list.splits)
next
  assume u: "hash_key k \<noteq> None \<and> cached self k = None"
  then have "hash_key k \<noteq> None" and "cached self k = None" by simp_all
  from pubid2container_uncached [OF this]
  show "calls (snd (pubid2container self k)) = calls self @ [Select k]"
    and "fst (pubid2container self k) =
        (case select_container_ident (sim_pub (db self)) k of
           Inl e \<Rightarrow> Inl e
         | Inr [] \<Rightarrow> Inr PNone
         | Inr (c # cs) \<Rightarrow> Inr c)"
    by simp_all
next
  assume c: "cached self k = Some v"
  then show "pubid2container self k = (Inr v, self)"
    by (auto simp: pubid2container_def cached_def split: option.splits)
  show "cached (snd (pubid2container self k')) k = Some v"
    using pubid2container_keeps [OF surjective_pairing c] .
  obtain r1 s1 where l: "load_issues_loop dec es self ls = (r1, s1)"
    by (cases "load_issues_loop dec es self ls")
  from load_issues_loop_keeps [OF l c] l
  show "cached (snd (load_issues dec es self ls)) k = Some v"
    by (cases r1) (simp_all add: load_issues_def cached_commit)
  from c show "cached (snd (load_pubs dec api self ls)) k = Some v"
    by (simp add: cached_cong [OF load_pubs_keeps_cache])
next
  show "filter is_lookup (calls (snd (pubid2container self k))) = filter is_lookup (calls self)"
    using pubid2container_frame [OF surjective_pairing] by blast
next
  obtain r1 s1 where l: "load_issues_loop dec es self ls = (r1, s1)"
    by (cases "load_issues_loop dec es self ls")
  from load_issues_loop_frame [OF l] l
  show "filter is_lookup (calls (snd (load_issues dec es self ls))) = filter is_lookup (calls self)"
    by (cases r1) (simp_all add: load_issues_def is_lookup_commit)
next
  show "pubid2container_map (snd (load_pubs dec api self ls)) = pubid2container_map self"
    by (rule load_pubs_keeps_cache)
next
  show "load_pubs dec api (self\<lparr>pubid2container_map := m\<rparr>) ls =
     (fst (load_pubs dec api self ls),
      (snd (load_pubs dec api self ls))\<lparr>pubid2container_map := m\<rparr>)"
    by (rule load_pubs_ignores_cache)
next
  assume "line \<noteq> [] \<and> read_record dec line = Inr (obj, meta)"
  then have "line \<noteq> []" and "read_record dec line = Inr (obj, meta)" by simp_all
  from load_pubs_line_calls [OF this]
  show "calls (snd (load_pubs_line dec api self line)) =
        calls self @
          (if truthy (dict_get meta ''issn'') then [LookupContainer (dict_get meta ''issn'')]
           else [])" .
qed

theorem resolution_is_cached_witness:
  "hash_key (PStr ''1234'') \<noteq> None \<and> cached (init with_pub) (PStr ''1234'') = None \<and>
   fst (pubid2container (init with_pub) (PStr ''1234'')) = Inr (PStr ''abc123'') \<and>
   calls (snd (pubid2container (init with_pub) (PStr ''1234''))) =
     calls (init with_pub) @ [Select (PStr ''1234'')] \<and>
   cached (snd (pubid2container (init with_pub) (PStr ''1234''))) (PStr ''1234'') =
     Some (PStr ''abc123'') \<and>
   pubid2container (snd (pubid2container (init with_pub) (PStr ''1234''))) (PStr ''1234'') =
     (Inr (PStr ''abc123''), snd (pubid2container (init with_pub) (PStr ''1234''))) \<and>
   cached (snd (load_issues docs index7 (snd (pubid2container (init with_pub) (PStr ''1234'')))
     [issue_line])) (PStr ''1234'') = Some (PStr ''abc123'') \<and>
   cached (snd (load_pubs docs catalog_404 (snd (pubid2container (init with_pub) (PStr ''1234'')))
     [pub_line])) (PStr ''1234'') = Some (PStr ''abc123'') \<and>
   pub_line \<noteq> [] \<and>
   read_record docs pub_line = Inr ([(''metadata'', PDict pub_meta)], pub_meta) \<and>
   truthy (dict_get pub_meta ''issn'') \<and>
   calls (snd (load_pubs_line docs catalog
      (snd (pubid2container (init with_pub) (PStr ''1234''))) pub_line)) =
     calls (snd (pubid2container (init with_pub) (PStr ''1234''))) @
       [LookupContainer (PStr ''1234-5678'')]"
proof -
  have u1: "hash_key (PStr ''1234'') \<noteq> None" by simp
  have u2: "cached (init with_pub) (PStr ''1234'') = None" by (simp add: cached_def init_def)
  have a: "fst (pubid2container (init with_pub) (PStr ''1234'')) = Inr (PStr ''abc123'')"
    by code_simp
  note b = resolution_is_cached [THEN conjunct2, THEN conjunct1, rule_format,
      OF conjI [OF u1 u2], THEN conjunct1]
  from a have "pubid2container (init with_pub) (PStr ''1234'') =
      (Inr (PStr ''abc123''), snd (pubid2container (init with_pub) (PStr ''1234'')))"
    by (simp add: prod_eq_iff)
  from resolution_is_cached [THEN conjunct1, rule_format, OF this]
  have c: "cached (snd (pubid2container (init with_pub) (PStr ''1234''))) (PStr ''1234'') =
      Some (PStr ''abc123'')" .
  note d = resolution_is_cached [THEN conjunct2, THEN conjunct2, THEN conjunct1, rule_format,
      OF c, where dec = docs and es = index7 and api = catalog_404]
  have e: "pub_line \<noteq> []" by (simp add: pub_line_def)
  have f: "read_record docs pub_line = Inr ([(''metadata'', PDict pub_meta)], pub_meta)"
    by code_simp
  have g: "truthy (dict_get pub_meta ''issn'')" by code_simp
  have g': "dict_get pub_meta ''issn'' = PStr ''1234-5678''" by code_simp
  from resolution_is_cached [THEN conjunct2, THEN conjunct2, THEN conjunct2, THEN conjunct2,
      THEN conjunct2, THEN conjunct2, THEN conjunct2, rule_format, OF conjI [OF e f],
      where api = catalog and self = "snd (pubid2container (init with_pub) (PStr ''1234''))"] g g'
  have h: "calls (snd (load_pubs_line docs catalog
      (snd (pubid2container (init with_pub) (PStr ''1234''))) pub_line)) =
     calls (snd (pubid2container (init with_pub) (PStr ''1234''))) @
       [LookupContainer (PStr ''1234-5678'')]"
    by simp
  from d have d1: "pubid2container (snd (pubid2container (init with_pub) (PStr ''1234''))) (PStr ''1234'') =
     (Inr (PStr ''abc123''), snd (pubid2container (init with_pub) (PStr ''1234'')))"
    and d2: "cached (snd (load_issues docs index7 (snd (pubid2container (init with_pub) (PStr ''1234'')))
     [issue_line])) (PStr ''1234'') = Some (PStr ''abc123'')"
    and d3: "cached (snd (load_pubs docs catalog_404 (snd (pubid2container (init with_pub) (PStr ''1234'')))
     [pub_line])) (PStr ''1234'') = Some (PStr ''abc123'')"
    by blast+
  from u1 u2 a b c d1 d2 d3 e f g h show ?thesis by blast
qed

text \<open>
  The claim as it was stated fails in the publication pass: the example publication
  twice in one batch asks the catalog twice.
\<close>

theorem repeated_lookup_counterexample:
  "filter is_lookup (calls (snd (load_pubs docs catalog (init empty_store) [pub_line, pub_line]))) =
     [LookupContainer (PStr ''1234-5678''), LookupContainer (PStr ''1234-5678'')]"
  by code_simp

section \<open>One commit per batch\<close>

lemma commit_fields:
  "stored (commit s) = db s \<and> db (commit s) = db s \<and> calls (commit s) = calls s @ [Commit] \<and>
   pubid2container_map (commit s) = pubid2container_map s"
  by (simp add: commit_def log_def)

lemma commits_snoc: "commits (evs @ [Commit]) = Suc (commits evs)"
  by (simp add: commits_def)

text \<open>
  C4. When \<open>load_pubs\<close> or \<open>load_issues\<close> returns normally, the loop has read the whole
  input without an exception, and up to its end the file is what it was before the
  batch and no commit was made. The state returned is the loop's final state,
  committed: the file now holds exactly what the connection saw at the end of the loop,
  the connection sees the same, the log has one commit more than before, as its last
  entry, and the cache is untouched. When either method raises, it is the loop that
  raised: the file is what it was before the batch and no commit was made.
\<close>

theorem commit_once_or_never:
  "(load_pubs dec api self ls = (Inr u, s) \<longrightarrow>
      stored s = db s \<and> commits (calls s) = commits (calls self) + 1 \<and>
      last (calls s) = Commit \<and>
      (\<exists>s1. load_pubs_loop dec api self ls = (Inr (), s1) \<and> s = commit s1 \<and>
         stored s1 = stored self \<and> commits (calls s1) = commits (calls self) \<and>
         stored s = db s1 \<and> db s = db s1 \<and> calls s = calls s1 @ [Commit] \<and>
         pubid2container_map s = pubid2container_map s1)) \<and>
   (load_pubs dec api self ls = (Inl e, s) \<longrightarrow>
      stored s = stored self \<and> commits (calls s) = commits (calls self) \<and>
      load_pubs_loop dec api self ls = (Inl e, s)) \<and>
   (load_issues dec es self ls = (Inr u, s) \<longrightarrow>
      stored s = db s \<and> commits (calls s) = commits (calls self) + 1 \<and>
      last (calls s) = Commit \<and>
      (\<exists>s1. load_issues_loop dec es self ls = (Inr (), s1) \<and> s = commit s1 \<and>
         stored s1 = stored self \<and> commits (calls s1) = commits (calls self) \<and>
         stored s = db s1 \<and> db s = db s1 \<and> calls s = calls s1 @ [Commit] \<and>
         pubid2container_map s = pubid2container_map s1)) \<and>
   (load_issues dec es self ls = (Inl e, s) \<longrightarrow>
      stored s = stored self \<and> commits (calls s) = commits (calls self) \<and>
      load_issues_loop dec es self ls = (Inl e, s))"
proof -
  obtain r1 s1 where p: "load_pubs_loop dec api self ls = (r1, s1)"
    by (cases "load_pubs_loop dec api self ls")
  obtain r2 s2 where i: "load_issues_loop dec es self ls = (r2, s2)"
    by (cases "load_issues_loop dec es self ls")
  note fp = load_pubs_loop_frame [OF p] and fi = load_issues_loop_frame [OF i]
  have pubs_ok: "load_pubs dec api self ls = (Inr u, s) \<longrightarrow>
      stored s = db s \<and> commits (calls s) = commits (calls self) + 1 \<and>
      last (calls s) = Commit \<and>
      (\<exists>s1. load_pubs_loop dec api self ls = (Inr (), s1) \<and> s = commit s1 \<and>
         stored s1 = stored self \<and> commits (calls s1) = commits (calls self) \<and>
         stored s = db s1 \<and> db s = db s1 \<and> calls s = calls s1 @ [Commit] \<and>
         pubid2container_map s = pubid2container_map s1)"
    using p fp by (cases r1) (auto simp: load_pubs_def commits_snoc commit_fields)
  have pubs_err: "load_pubs dec api self ls = (Inl e, s) \<longrightarrow>
      stored s = stored self \<and> commits (calls s) = commits (calls self) \<and>
      load_pubs_loop dec api self ls = (Inl e, s)"
    using p fp by (cases r1) (auto simp: load_pubs_def)
  have issues_ok: "load_issues dec es self ls = (Inr u, s) \<longrightarrow>
      stored s = db s \<and> commits (calls s) = commits (calls self) + 1 \<and>
      last (calls s) = Commit \<and>
      (\<exists>s1. load_issues_loop dec es self ls = (Inr (), s1) \<and> s = commit s1 \<and>
         stored s1 = stored self \<and> commits (calls s1) = commits (calls self) \<and>
         stored s = db s1 \<and> db s = db s1 \<and> calls s = calls s1 @ [Commit] \<and>
         pubid2container_map s = pubid2container_map s1)"
    using i fi by (cases r2) (auto simp: load_issues_def commits_snoc commit_fields)
  have issues_err: "load_issues dec es self ls = (Inl e, s) \<longrightarrow>
      stored s = stored self \<and> commits (calls s) = commits (calls self) \<and>
      load_issues_loop dec es self ls = (Inl e, s)"
    using i fi by (cases r2) (auto simp: load_issues_def)
  from pubs_ok pubs_err issues_ok issues_err show ?thesis by blast
qed

text \<open>
  On the examples: the publication line alone is committed once, and the file then
  holds its row; followed by a line that holds one space, the batch raises and the file
  stays empty. The issue line alone is committed once, and the file then holds its row;
  followed by the line with the superscript page number, the batch raises and the file
  keeps no issue.
\<close>

theorem commit_once_or_never_witness:
  "fst (load_pubs docs catalog (init empty_store) [pub_line]) = Inr () \<and>
   commits (calls (snd (load_pubs docs catalog (init empty_store) [pub_line]))) = 1 \<and>
   stored (snd (load_pubs docs catalog (init empty_store) [pub_line])) =
     db (snd (load_pubs_loop docs catalog (init empty_store) [pub_line])) \<and>
   rows (sim_pub (stored (snd (load_pubs docs catalog (init empty_store) [pub_line])))) =
     [[PStr ''1234'', PStr ''pub_foo'', PStr ''Foo'', PStr ''1234-5678'', PNone, PNone,
       PStr ''1234-5678'', PStr ''abc123'', PNone]] \<and>
   fst (load_pubs docs catalog (init empty_store) [pub_line, '' '']) = Inl JSONDecodeError \<and>
   stored (snd (load_pubs docs catalog (init empty_store) [pub_line, '' ''])) = empty_store \<and>
   fst (load_issues docs index7 (init with_pub) [issue_line]) = Inr () \<and>
   commits (calls (snd (load_issues docs index7 (init with_pub) [issue_line]))) = 1 \<and>
   rows (sim_issue (stored (snd (load_issues docs index7 (init with_pub) [issue_line])))) =
     [[PStr ''foo_1998-03'', PStr ''1234'', PInt 1998, PStr ''12'', PStr ''3'', PInt 12, PInt 14,
       PInt 7]] \<and>
   fst (load_issues docs index7 (init with_pub) [issue_line, superscript_line]) = Inl ValueError \<and>
   stored (snd (load_issues docs index7 (init with_pub) [issue_line, superscript_line])) = with_pub"
proof -
  have a: "fst (load_pubs docs catalog (init empty_store) [pub_line]) = Inr ()"
    by code_simp
  have b: "fst (load_pubs docs catalog (init empty_store) [pub_line, '' '']) = Inl JSONDecodeError"
    by code_simp
  have c: "fst (load_issues docs index7 (init with_pub) [issue_line]) = Inr ()"
    by code_simp
  have d: "fst (load_issues docs index7 (init with_pub) [issue_line, superscript_line]) = Inl ValueError"
    by code_simp
  have z: "commits (calls (init t)) = 0" "stored (init t) = t" for t
    by (simp_all add: init_def commits_def)
  note p_ok = commit_once_or_never [THEN conjunct1, rule_format]
    and p_err = commit_once_or_never [THEN conjunct2, THEN conjunct1, rule_format]
    and i_ok = commit_once_or_never [THEN conjunct2, THEN conjunct2, THEN conjunct1, rule_format]
    and i_err = commit_once_or_never [THEN conjunct2, THEN conjunct2, THEN conjunct2, rule_format]
  have "load_pubs docs catalog (init empty_store) [pub_line] =
      (Inr (), snd (load_pubs docs catalog (init empty_store) [pub_line]))"
    using a by (simp add: prod_eq_iff)
  from p_ok [OF this] obtain s1 where
    a1: "commits (calls (snd (load_pubs docs catalog (init empty_store) [pub_line]))) =
      commits (calls (init empty_store)) + 1"
    and a2: "load_pubs_loop docs catalog (init empty_store) [pub_line] = (Inr (), s1)"
    and a3: "stored (snd (load_pubs docs catalog (init empty_store) [pub_line])) = db s1"
    by blast
  from a1 have a4: "commits (calls (snd (load_pubs docs catalog (init empty_store) [pub_line]))) = 1"
    by (simp add: z)
  from a2 a3 have a5: "stored (snd (load_pubs docs catalog (init empty_store) [pub_line])) =
      db (snd (load_pubs_loop docs catalog (init empty_store) [pub_line]))"
    by simp
  have "rows (sim_pub (db (snd (load_pubs_loop docs catalog (init empty_store) [pub_line])))) =
     [[PStr ''1234'', PStr ''pub_foo'', PStr ''Foo'', PStr ''1234-5678'', PNone, PNone,
       PStr ''1234-5678'', PStr ''abc123'', PNone]]"
    by code_simp
  with a5 have a6: "rows (sim_pub (stored (snd (load_pubs docs catalog (init empty_store) [pub_line])))) =
     [[PStr ''1234'', PStr ''pub_foo'', PStr ''Foo'', PStr ''1234-5678'', PNone, PNone,
       PStr ''1234-5678'', PStr ''abc123'', PNone]]"
    by simp
  have "load_pubs docs catalog (init empty_store) [pub_line, '' ''] =
      (Inl JSONDecodeError, snd (load_pubs docs catalog (init empty_store) [pub_line, '' '']))"
    using b by (simp add: prod_eq_iff)
  from p_err [OF this]
  have b1: "stored (snd (load_pubs docs catalog (init empty_store) [pub_line, '' ''])) = empty_store"
    by (simp add: z)
  have "load_issues docs index7 (init with_pub) [issue_line] =
      (Inr (), snd (load_issues docs index7 (init with_pub) [issue_line]))"
    using c by (simp add: prod_eq_iff)
  from i_ok [OF this] obtain s2 where
    c1: "commits (calls (snd (load_issues docs index7 (init with_pub) [issue_line]))) =
      commits (calls (init with_pub)) + 1"
    and c2: "load_issues_loop docs index7 (init with_pub) [issue_line] = (Inr (), s2)"
    and c3: "stored (snd (load_issues docs index7 (init with_pub) [issue_line])) = db s2"
    by blast
  from c1 have c4: "commits (calls (snd (load_issues docs index7 (init with_pub) [issue_line]))) = 1"
    by (simp add: z)
  have "rows (sim_issue (db (snd (load_issues_loop docs index7 (init with_pub) [issue_line])))) =
     [[PStr ''foo_1998-03'', PStr ''1234'', PInt 1998, PStr ''12'', PStr ''3'', PInt 12, PInt 14,
       PInt 7]]"
    by code_simp
  with c2 c3 have c5: "rows (sim_issue (stored (snd (load_issues docs index7 (init with_pub) [issue_line])))) =
     [[PStr ''foo_1998-03'', PStr ''1234'', PInt 1998, PStr ''12'', PStr ''3'', PInt 12, PInt 14,
       PInt 7]]"
    by simp
  have "load_issues docs index7 (init with_pub) [issue_line, superscript_line] =
      (Inl ValueError, snd (load_issues docs index7 (init with_pub) [issue_line, superscript_line]))"
    using d by (simp add: prod_eq_iff)
  from i_err [OF this]
  have d1: "stored (snd (load_issues docs index7 (init with_pub) [issue_line, superscript_line])) = with_pub"
    by (simp add: z)
  from a a4 a5 a6 b b1 c c4 c5 d d1 show ?thesis by simp
qed

section \<open>The catalog's answers in load\_pubs\<close>

lemma not_found_iff: "not_found e \<longleftrightarrow> e = ApiException (Some 404)"
  by (cases e) auto

lemma pub_row_container:
  "pub_row meta container = Inr row \<Longrightarrow>
     container_issnl row = and_attr container issnl \<and>
     container_ident row = and_attr container ident \<and>
     SimPubRow.wikidata_qid row = and_attr container ContainerEntity.wikidata_qid"
  by (auto simp: pub_row_def split: sum.splits)

text \<open>
  C5. Take a line that decodes to a record with a true \<^verbatim>\<open>issn\<close>. If the catalog
  answers with an \<^verbatim>\<open>ApiException\<close> of status 404, the loop goes on as it does for a
  record without a container: the row is built with the three container fields
  \<^verbatim>\<open>None\<close> and inserted, and the remaining lines are read. If the catalog raises
  anything else, \<open>load_pubs\<close> raises it: the remaining lines are not read and nothing is
  committed.
\<close>

theorem not_found_continues_other_failures_abort:
  assumes "read_record dec line = Inr (obj, meta)"
    and "line \<noteq> []"
    and "truthy (dict_get meta ''issn'')"
  shows "(api (dict_get meta ''issn'') = Inl (ApiException (Some 404)) \<longrightarrow>
            load_pubs_loop dec api self (line # rest) =
              (case pub_row meta None of
                 Inl e \<Rightarrow> (Inl e, log (LookupContainer (dict_get meta ''issn'')) self)
               | Inr row \<Rightarrow>
                   (case insert_sim_pub (log (LookupContainer (dict_get meta ''issn'')) self) row of
                      (Inl e, s) \<Rightarrow> (Inl e, s)
                    | (Inr u, s) \<Rightarrow> load_pubs_loop dec api s rest)) \<and>
            (\<forall>row. pub_row meta None = Inr row \<longrightarrow>
               container_issnl row = PNone \<and> container_ident row = PNone \<and>
               SimPubRow.wikidata_qid row = PNone)) \<and>
         (api (dict_get meta ''issn'') = Inl e \<and> e \<noteq> ApiException (Some 404) \<longrightarrow>
            load_pubs dec api self (line # rest) =
              (Inl e, log (LookupContainer (dict_get meta ''issn'')) self))"
proof (intro conjI impI allI)
  assume nf: "api (dict_get meta ''issn'') = Inl (ApiException (Some 404))"
  with assms have "lookup_container api meta self =
      (Inr None, log (LookupContainer (dict_get meta ''issn'')) self)"
    by (simp add: lookup_container_def container_of_def)
  with assms show "load_pubs_loop dec api self (line # rest) =
      (case pub_row meta None of
         Inl e \<Rightarrow> (Inl e, log (LookupContainer (dict_get meta ''issn'')) self)
       | Inr row \<Rightarrow>
           (case insert_sim_pub (log (LookupContainer (dict_get meta ''issn'')) self) row of
              (Inl e, s) \<Rightarrow> (Inl e, s)
            | (Inr u, s) \<Rightarrow> load_pubs_loop dec api s rest))"
    by (simp add: load_pubs_line_def split: sum.splits prod.splits)
next
  fix row
  assume "pub_row meta None = Inr row"
  from pub_row_container [OF this]
  show "container_issnl row = PNone" "container_ident row = PNone" "SimPubRow.wikidata_qid row = PNone"
    by (simp_all add: and_attr_def)
next
  assume "api (dict_get meta ''issn'') = Inl e \<and> e \<noteq> ApiException (Some 404)"
  with assms have "lookup_container api meta self =
      (Inl e, log (LookupContainer (dict_get meta ''issn'')) self)"
    by (simp add: lookup_container_def container_of_def not_found_iff)
  with assms show "load_pubs dec api self (line # rest) =
      (Inl e, log (LookupContainer (dict_get meta ''issn'')) self)"
    by (simp add: load_pubs_def load_pubs_line_def)
qed

theorem not_found_continues_other_failures_abort_witness:
  "read_record docs pub_line = Inr ([(''metadata'', PDict pub_meta)], pub_meta) \<and>
   pub_line \<noteq> [] \<and> truthy (dict_get pub_meta ''issn'') \<and>
   catalog_404 (dict_get pub_meta ''issn'') = Inl (ApiException (Some 404)) \<and>
   fst (load_pubs_loop docs catalog_404 (init empty_store) [pub_line, pub_line]) = Inr () \<and>
   rows (sim_pub (db (snd (load_pubs_loop docs catalog_404 (init empty_store) [pub_line])))) =
     [[PStr ''1234'', PStr ''pub_foo'', PStr ''Foo'', PStr ''1234-5678'', PNone, PNone, PNone, PNone, PNone]] \<and>
   catalog_down (dict_get pub_meta ''issn'') = Inl (ApiException (Some 503)) \<and>
   load_pubs docs catalog_down (init empty_store) [pub_line, pub_line] =
     (Inl (ApiException (Some 503)), log (LookupContainer (PStr ''1234-5678'')) (init empty_store))"
proof -
  have rr: "read_record docs pub_line = Inr ([(''metadata'', PDict pub_meta)], pub_meta)"
    by code_simp
  have ne: "pub_line \<noteq> []" by (simp add: pub_line_def)
  have tr: "truthy (dict_get pub_meta ''issn'')" by code_simp
  have issn: "dict_get pub_meta ''issn'' = PStr ''1234-5678''" by code_simp
  note t = not_found_continues_other_failures_abort [OF rr ne tr]
  have nf: "catalog_404 (dict_get pub_meta ''issn'') = Inl (ApiException (Some 404))"
    by (simp add: catalog_404_def)
  have dn: "catalog_down (dict_get pub_meta ''issn'') = Inl (ApiException (Some 503))"
    by (simp add: catalog_down_def)
  from t [where api = catalog_404 and self = "init empty_store" and rest = "[pub_line]", THEN conjunct1, rule_format, OF nf]
  have "load_pubs_loop docs catalog_404 (init empty_store) [pub_line, pub_line] =
      (case pub_row pub_meta None of
         Inl e \<Rightarrow> (Inl e, log (LookupContainer (dict_get pub_meta ''issn'')) (init empty_store))
       | Inr row \<Rightarrow>
           (case insert_sim_pub (log (LookupContainer (dict_get pub_meta ''issn'')) (init empty_store)) row of
              (Inl e, s) \<Rightarrow> (Inl e, s)
            | (Inr u, s) \<Rightarrow> load_pubs_loop docs catalog_404 s [pub_line]))"
    by simp
  moreover have "fst \<dots> = Inr ()" by code_simp
  ultimately have c1: "fst (load_pubs_loop docs catalog_404 (init empty_store) [pub_line, pub_line]) = Inr ()"
    by simp
  have c2: "rows (sim_pub (db (snd (load_pubs_loop docs catalog_404 (init empty_store) [pub_line])))) =
     [[PStr ''1234'', PStr ''pub_foo'', PStr ''Foo'', PStr ''1234-5678'', PNone, PNone, PNone, PNone, PNone]]"
    by code_simp
  from t [where api = catalog_down and e = "ApiException (Some 503)" and self = "init empty_store" and rest = "[pub_line]", THEN conjunct2, rule_format] dn
  have c3: "load_pubs docs catalog_down (init empty_store) [pub_line, pub_line] =
     (Inl (ApiException (Some 503)), log (LookupContainer (PStr ''1234-5678'')) (init empty_store))"
    by (simp add: issn)
  from rr ne tr nf c1 c2 dn c3 show ?thesis by simp
qed

section \<open>The container fields of a publication row\<close>

text \<open>
  C6, as the code has it. The row that a publication line writes holds, in its three
  container columns, \<^verbatim>\<open>None\<close> when no container was resolved (no ISSN, or a 404), and
  otherwise the three attributes of the entity the catalog returned, as they are bound,
  each of which may itself be \<^verbatim>\<open>None\<close>.
\<close>

theorem container_fields_follow_entity:
  assumes "load_pubs_line dec api self line = (Inr u, s)" and "line \<noteq> []"
  shows "\<exists>obj meta container.
     read_record dec line = Inr (obj, meta) \<and> container_of api meta = Inr container \<and>
     (case container of
        None \<Rightarrow>
          col (last (rows (sim_pub (db s)))) 6 = PNone \<and>
          col (last (rows (sim_pub (db s)))) 7 = PNone \<and>
          col (last (rows (sim_pub (db s)))) 8 = PNone
      | Some c \<Rightarrow>
          bind_param (issnl c) = Inr (col (last (rows (sim_pub (db s)))) 6) \<and>
          bind_param (ident c) = Inr (col (last (rows (sim_pub (db s)))) 7) \<and>
          bind_param (ContainerEntity.wikidata_qid c) = Inr (col (last (rows (sim_pub (db s)))) 8))"
proof -
  from load_pubs_line_writes [OF assms] obtain obj meta container row vs where
    rr: "read_record dec line = Inr (obj, meta)" and co: "container_of api meta = Inr container"
    and row: "pub_row meta container = Inr row"
    and vs: "bind_params (SimPubRow_tuple row) = Inr vs"
    and rows: "rows (sim_pub (db s)) =
       filter (\<lambda>r. \<not> conflicts (pkey (sim_pub (db self))) r vs) (rows (sim_pub (db self))) @ [vs]"
    by blast
  from rows have l: "last (rows (sim_pub (db s))) = vs" by simp
  from bind_params_nth [OF vs] have len: "length vs = 9"
    and nth: "\<And>i. i < 9 \<Longrightarrow> bind_param (SimPubRow_tuple row ! i) = Inr (vs ! i)"
    by (simp_all add: SimPubRow_tuple_def)
  from nth [of 6] nth [of 7] nth [of 8] len
  have b: "bind_param (container_issnl row) = Inr (col vs 6)"
    "bind_param (container_ident row) = Inr (col vs 7)"
    "bind_param (SimPubRow.wikidata_qid row) = Inr (col vs 8)"
    by (simp_all add: SimPubRow_tuple_def col_def)
  have c: "container_issnl row = and_attr container issnl"
    "container_ident row = and_attr container ident"
    "SimPubRow.wikidata_qid row = and_attr container ContainerEntity.wikidata_qid"
    using row by (auto simp: pub_row_def split: sum.splits)
  have "case container of
        None \<Rightarrow> col vs 6 = PNone \<and> col vs 7 = PNone \<and> col vs 8 = PNone
      | Some c \<Rightarrow>
          bind_param (issnl c) = Inr (col vs 6) \<and> bind_param (ident c) = Inr (col vs 7) \<and>
          bind_param (ContainerEntity.wikidata_qid c) = Inr (col vs 8)"
    using b unfolding c by (cases container) (auto simp: and_attr_def)
  with rr co l show ?thesis by auto
qed

theorem container_fields_follow_entity_witness:
  "fst (load_pubs_line docs catalog (init empty_store) pub_line) = Inr () \<and> pub_line \<noteq> [] \<and>
   (\<exists>obj meta container.
      read_record docs pub_line = Inr (obj, meta) \<and> container_of catalog meta = Inr container \<and>
      (case container of
         None \<Rightarrow>
           col (last (rows (sim_pub (db (snd (load_pubs_line docs catalog (init empty_store) pub_line)))))) 6 = PNone \<and>
           col (last (rows (sim_pub (db (snd (load_pubs_line docs catalog (init empty_store) pub_line)))))) 7 = PNone \<and>
           col (last (rows (sim_pub (db (snd (load_pubs_line docs catalog (init empty_store) pub_line)))))) 8 = PNone
       | Some c \<Rightarrow>
           bind_param (issnl c) =
             Inr (col (last (rows (sim_pub (db (snd (load_pubs_line docs catalog (init empty_store) pub_line)))))) 6) \<and>
           bind_param (ident c) =
             Inr (col (last (rows (sim_pub (db (snd (load_pubs_line docs catalog (init empty_store) pub_line)))))) 7) \<and>
           bind_param (ContainerEntity.wikidata_qid c) =
             Inr (col (last (rows (sim_pub (db (snd (load_pubs_line docs catalog (init empty_store) pub_line)))))) 8)))"
proof -
  have a: "fst (load_pubs_line docs catalog (init empty_store) pub_line) = Inr ()"
    by code_simp
  have ne: "pub_line \<noteq> []" by (simp add: pub_line_def)
  from a have "load_pubs_line docs catalog (init empty_store) pub_line =
      (Inr (), snd (load_pubs_line docs catalog (init empty_store) pub_line))"
    by (simp add: prod_eq_iff)
  from container_fields_follow_entity [OF this ne] a ne show ?thesis by simp
qed

text \<open>
  The claim as it was stated fails on the example publication: its container is
  resolved, the ISSN-L and the identifier are stored, and the Wikidata id is
  \<^verbatim>\<open>None\<close>.
\<close>

theorem container_fields_counterexample:
  "container_of catalog pub_meta =
     Inr (Some \<lparr>issnl = PStr ''1234-5678'', ident = PStr ''abc123'', wikidata_qid = PNone\<rparr>) \<and>
   rows (sim_pub (stored (snd (load_pubs docs catalog (init empty_store) [pub_line])))) =
     [[PStr ''1234'', PStr ''pub_foo'', PStr ''Foo'', PStr ''1234-5678'', PNone, PNone,
       PStr ''1234-5678'', PStr ''abc123'', PNone]]"
  by code_simp

section \<open>Meta items\<close>

text \<open>
  C7. A line that decodes to a record whose \<^verbatim>\<open>metadata.identifier\<close> is a string ending
  in \<^verbatim>\<open>_index\<close> or \<^verbatim>\<open>_contents\<close> never changes the tables, whatever else it carries.
  When the record passes the periodicals assertion, the line is skipped: it leaves the
  state as it is and the loop goes on with the next line.
\<close>

theorem meta_items_are_skipped:
  assumes "json_loads dec line = Inr (PDict obj)"
    and "map_of obj ''metadata'' = Some (PDict meta)"
    and "map_of meta ''identifier'' = Some (PStr item)"
    and "suffix ''_index'' item \<or> suffix ''_contents'' item"
  shows "db (snd (load_issues_line dec es self line)) = db self \<and>
     (assert_periodicals meta = Inr () \<longrightarrow>
        load_issues_line dec es self line = (Inr (), self) \<and>
        load_issues_loop dec es self (line # rest) = load_issues_loop dec es self rest)"
proof -
  from assms have f: "issue_fields obj meta = Inr None"
    by (simp add: issue_fields_def)
  from assms have r: "read_record dec line =
      (case assert_periodicals meta of Inl e \<Rightarrow> Inl e | Inr u \<Rightarrow> Inr (obj, meta))"
    by (simp add: read_record_def)
  show ?thesis
    using f r by (auto simp: load_issues_line_def split: sum.splits)
qed

theorem meta_items_are_skipped_witness:
  "json_loads docs index_line =
     Inr (PDict [(''metadata'', PDict (issue_meta ''foo_1998-03_index'' ''1998-03-01''))]) \<and>
   map_of (issue_meta ''foo_1998-03_index'' ''1998-03-01'') ''identifier'' =
     Some (PStr ''foo_1998-03_index'') \<and>
   suffix ''_index'' ''foo_1998-03_index'' \<and>
   assert_periodicals (issue_meta ''foo_1998-03_index'' ''1998-03-01'') = Inr () \<and>
   load_issues_line docs index7 (init with_pub) index_line = (Inr (), init with_pub) \<and>
   load_issues_loop docs index7 (init with_pub) [index_line, issue_line] =
     load_issues_loop docs index7 (init with_pub) [issue_line]"
proof -
  have a: "json_loads docs index_line =
     Inr (PDict [(''metadata'', PDict (issue_meta ''foo_1998-03_index'' ''1998-03-01''))])"
    by code_simp
  have b: "map_of [(''metadata'', PDict (issue_meta ''foo_1998-03_index'' ''1998-03-01''))] ''metadata'' =
     Some (PDict (issue_meta ''foo_1998-03_index'' ''1998-03-01''))"
    by simp
  have c: "map_of (issue_meta ''foo_1998-03_index'' ''1998-03-01'') ''identifier'' =
     Some (PStr ''foo_1998-03_index'')"
    by (simp add: issue_meta_def)
  have d: "suffix ''_index'' ''foo_1998-03_index''"
    by code_simp
  have e: "assert_periodicals (issue_meta ''foo_1998-03_index'' ''1998-03-01'') = Inr ()"
    by code_simp
  from meta_items_are_skipped [OF a b c disjI1 [OF d], of index7 "init with_pub" "[issue_line]"] a c d e
  show ?thesis by simp
qed

section \<open>Empty lines and blank lines\<close>

text \<open>
  The guard of lines 149 and 183, \<^verbatim>\<open>if not line: continue\<close>, is true of the empty string
  only. Both loops skip such a line and leave the state as it is. Every other line
  reaches \<^verbatim>\<open>json.loads\<close>, also one of spaces, tabs and line ends only, on which the
  decoder raises whatever else it does.
\<close>

lemma empty_line_is_skipped:
  "load_pubs_line dec api self [] = (Inr (), self) \<and>
   load_issues_line dec es self [] = (Inr (), self) \<and>
   load_pubs_loop dec api self ([] # rest) = load_pubs_loop dec api self rest \<and>
   load_issues_loop dec es self ([] # rest) = load_issues_loop dec es self rest"
  by (simp add: load_pubs_line_def load_issues_line_def)

lemma blank_line_reaches_decoder:
  assumes "line \<noteq> []" and "list_all json_whitespace line"
  shows "load_pubs dec api self (line # rest) = (Inl JSONDecodeError, self) \<and>
     load_issues dec es self (line # rest) = (Inl JSONDecodeError, self)"
  using assms
  by (simp add: load_pubs_line_def load_issues_line_def load_pubs_def load_issues_def
      read_record_def json_loads_def)

text \<open>
  C8 fails on every blank line that is not the empty string, and so on every blank
  line of a file: iterating a file yields a blank line as a line feed, which the guard
  does not catch. A file of the example publication, a blank line and the publication
  again ends \<open>load_pubs\<close> with \<^verbatim>\<open>JSONDecodeError\<close> and leaves the file of the store
  empty, where the claim has the blank line skipped and both records stored; the same
  happens to \<open>load_issues\<close> on a line feed and to \<open>load_pubs\<close> on a single space. The
  same input with the empty string in place of the blank line is read to its end.
\<close>

theorem blank_line_aborts_batch:
  "fst (load_pubs file_docs catalog (init empty_store)
     [pub_line @ [CHR 0x0A], [CHR 0x0A], pub_line @ [CHR 0x0A]]) = Inl JSONDecodeError \<and>
   stored (snd (load_pubs file_docs catalog (init empty_store)
     [pub_line @ [CHR 0x0A], [CHR 0x0A], pub_line @ [CHR 0x0A]])) = empty_store \<and>
   fst (load_issues docs index7 (init with_pub) [[CHR 0x0A]]) = Inl JSONDecodeError \<and>
   fst (load_pubs docs catalog (init empty_store) ['' '']) = Inl JSONDecodeError \<and>
   fst (load_pubs file_docs catalog (init empty_store)
     [pub_line @ [CHR 0x0A], [], pub_line @ [CHR 0x0A]]) = Inr ()"
  by code_simp

section \<open>Upserts\<close>

lemma load_pubs_loop_append:
  "load_pubs_loop dec api self (xs @ ys) =
     (case load_pubs_loop dec api self xs of
        (Inl e, s1) \<Rightarrow> (Inl e, s1)
      | (Inr u, s1) \<Rightarrow> load_pubs_loop dec api s1 ys)"
  by (induction xs arbitrary: self) (auto split: prod.splits sum.splits)

lemma load_issues_loop_append:
  "load_issues_loop dec es self (xs @ ys) =
     (case load_issues_loop dec es self xs of
        (Inl e, s1) \<Rightarrow> (Inl e, s1)
      | (Inr u, s1) \<Rightarrow> load_issues_loop dec es s1 ys)"
  by (induction xs arbitrary: self) (auto split: prod.splits sum.splits)

lemma replaced_row_is_alone:
  assumes "col vs 0 \<noteq> PNone"
  shows "filter (\<lambda>r. col r 0 = col vs 0) (filter (\<lambda>r. \<not> conflicts [0] r vs) xs @ [vs]) = [vs]"
proof -
  have "conflicts [0] r vs \<longleftrightarrow> col r 0 = col vs 0" for r
    using assms by (auto simp: conflicts_def sql_eq_def)
  then show ?thesis by (simp add: filter_empty_conv)
qed

lemma issue_item_is_str:
  "issue_fields obj meta = Inr (Some row) \<Longrightarrow> \<exists>item. issue_item row = PStr item"
  by (auto simp: issue_fields_def split: sum.splits if_splits prod.splits elim: is_meta_item.elims)

text \<open>
  C9. Let the primary key of \<^verbatim>\<open>sim_pub\<close> be its first column, \<^verbatim>\<open>sim_pubid\<close>. After a
  batch of \<open>load_pubs\<close> that returns normally and whose last line is \<open>line\<close>, the file
  holds exactly one row with that line's publication id (when it is not \<^verbatim>\<open>None\<close>): the
  row built from the line in this ingestion. This holds from every state and after
  every earlier part of the batch, so also when the same line was ingested before, in
  this run or in an earlier one. Likewise for \<open>load_issues\<close> and \<^verbatim>\<open>sim_issue\<close>, keyed by
  \<^verbatim>\<open>issue_item\<close>, where the row carries the release count found in this ingestion.
\<close>

theorem last_write_wins:
  "(pkey (sim_pub (db self)) = [0] \<and> line \<noteq> [] \<and>
    load_pubs dec api self (ls @ [line]) = (Inr u, s) \<longrightarrow>
      (\<exists>obj meta container row vs.
         read_record dec line = Inr (obj, meta) \<and> container_of api meta = Inr container \<and>
         pub_row meta container = Inr row \<and> bind_params (SimPubRow_tuple row) = Inr vs \<and>
         (col vs 0 \<noteq> PNone \<longrightarrow>
            filter (\<lambda>r. col r 0 = col vs 0) (rows (sim_pub (stored s))) = [vs]))) \<and>
   (pkey (sim_issue (db self)) = [0] \<and> line \<noteq> [] \<and>
    load_issues dec es self (ls @ [line]) = (Inr u, s) \<and>
    read_record dec line = Inr (obj, meta) \<and> issue_fields obj meta = Inr (Some row) \<longrightarrow>
      (\<exists>s0 count s1 vs.
         load_issues_loop dec es self ls = (Inr (), s0) \<and>
         issue_release_count es s0 row = (Inr count, s1) \<and>
         bind_params (SimIssueRow_tuple (row\<lparr>SimIssueRow.release_count := count\<rparr>)) = Inr vs \<and>
         filter (\<lambda>r. col r 0 = col vs 0) (rows (sim_issue (stored s))) = [vs]))"
proof (intro conjI impI)
  assume h: "pkey (sim_pub (db self)) = [0] \<and> line \<noteq> [] \<and>
    load_pubs dec api self (ls @ [line]) = (Inr u, s)"
  then obtain s0 s1 where l0: "load_pubs_loop dec api self ls = (Inr (), s0)"
    and l1: "load_pubs_line dec api s0 line = (Inr (), s1)" and s: "s = commit s1"
    by (auto simp: load_pubs_def load_pubs_loop_append split: prod.splits sum.splits)
  from load_pubs_loop_frame [OF l0] h have pk: "pkey (sim_pub (db s0)) = [0]" by simp
  from load_pubs_line_writes [OF l1] h obtain obj meta container row vs where
    rr: "read_record dec line = Inr (obj, meta)" "container_of api meta = Inr container"
      "pub_row meta container = Inr row" "bind_params (SimPubRow_tuple row) = Inr vs"
    and rows: "rows (sim_pub (db s1)) =
       filter (\<lambda>r. \<not> conflicts (pkey (sim_pub (db s0))) r vs) (rows (sim_pub (db s0))) @ [vs]"
    by blast
  have st: "stored s = db s1" using s by (simp add: commit_def log_def)
  have "col vs 0 \<noteq> PNone \<longrightarrow> filter (\<lambda>r. col r 0 = col vs 0) (rows (sim_pub (stored s))) = [vs]"
    unfolding st rows pk by (rule impI) (rule replaced_row_is_alone)
  with rr show "\<exists>obj meta container row vs.
         read_record dec line = Inr (obj, meta) \<and> container_of api meta = Inr container \<and>
         pub_row meta container = Inr row \<and> bind_params (SimPubRow_tuple row) = Inr vs \<and>
         (col vs 0 \<noteq> PNone \<longrightarrow>
            filter (\<lambda>r. col r 0 = col vs 0) (rows (sim_pub (stored s))) = [vs])"
    by blast
next
  assume h: "pkey (sim_issue (db self)) = [0] \<and> line \<noteq> [] \<and>
    load_issues dec es self (ls @ [line]) = (Inr u, s) \<and>
    read_record dec line = Inr (obj, meta) \<and> issue_fields obj meta = Inr (Some row)"
  then obtain s0 s1 where l0: "load_issues_loop dec es self ls = (Inr (), s0)"
    and l1: "load_issues_line dec es s0 line = (Inr (), s1)" and s: "s = commit s1"
    by (auto simp: load_issues_def load_issues_loop_append split: prod.splits sum.splits)
  from load_issues_loop_frame [OF l0] h have pk: "pkey (sim_issue (db s0)) = [0]" by simp
  from load_issues_line_writes [OF l1] h obtain count s2 vs where
    rc: "issue_release_count es s0 row = (Inr count, s2)"
    and vs: "bind_params (SimIssueRow_tuple (row\<lparr>SimIssueRow.release_count := count\<rparr>)) = Inr vs"
    and rows: "rows (sim_issue (db s1)) =
       filter (\<lambda>r. \<not> conflicts (pkey (sim_issue (db s0))) r vs) (rows (sim_issue (db s0))) @ [vs]"
    by auto
  from issue_item_is_str h obtain item where item: "issue_item row = PStr item" by blast
  from bind_params_nth [OF vs] have "length vs = 8" "bind_param (issue_item row) = Inr (vs ! 0)"
    by (auto simp: SimIssueRow_tuple_def)
  with item have nn: "col vs 0 \<noteq> PNone" by (auto simp: col_def)
  have st: "stored s = db s1" using s by (simp add: commit_def log_def)
  have "filter (\<lambda>r. col r 0 = col vs 0) (rows (sim_issue (stored s))) = [vs]"
    unfolding st rows pk by (rule replaced_row_is_alone [OF nn])
  with l0 rc vs show "\<exists>s0 count s1 vs.
         load_issues_loop dec es self ls = (Inr (), s0) \<and>
         issue_release_count es s0 row = (Inr count, s1) \<and>
         bind_params (SimIssueRow_tuple (row\<lparr>SimIssueRow.release_count := count\<rparr>)) = Inr vs \<and>
         filter (\<lambda>r. col r 0 = col vs 0) (rows (sim_issue (stored s))) = [vs]"
    by blast
qed

text \<open>
  The example publication ingested twice in one batch leaves one row; ingested again
  in a second run, against a catalog that no longer knows it, the one row has the
  second run's values. The example issue ingested twice leaves one row.
\<close>

theorem last_write_wins_witness:
  "pkey (sim_pub (db (init empty_store))) = [0] \<and> pub_line \<noteq> [] \<and>
   fst (load_pubs docs catalog (init empty_store) ([pub_line] @ [pub_line])) = Inr () \<and>
   (\<exists>obj meta container row vs.
      read_record docs pub_line = Inr (obj, meta) \<and> container_of catalog meta = Inr container \<and>
      pub_row meta container = Inr row \<and> bind_params (SimPubRow_tuple row) = Inr vs \<and>
      col vs 0 = PStr ''1234'' \<and>
      filter (\<lambda>r. col r 0 = col vs 0)
        (rows (sim_pub (stored (snd (load_pubs docs catalog (init empty_store) ([pub_line] @ [pub_line])))))) = [vs]) \<and>
   rows (sim_pub (stored (snd (load_pubs docs catalog (init empty_store) [pub_line, pub_line])))) =
     [[PStr ''1234'', PStr ''pub_foo'', PStr ''Foo'', PStr ''1234-5678'', PNone, PNone,
       PStr ''1234-5678'', PStr ''abc123'', PNone]] \<and>
   rows (sim_pub (stored (snd (load_pubs docs catalog_404 (init with_pub) [pub_line])))) =
     [[PStr ''1234'', PStr ''pub_foo'', PStr ''Foo'', PStr ''1234-5678'', PNone, PNone,
       PNone, PNone, PNone]] \<and>
   pkey (sim_issue (db (init with_pub))) = [0] \<and> issue_line \<noteq> [] \<and>
   fst (load_issues docs index7 (init with_pub) ([issue_line] @ [issue_line])) = Inr () \<and>
   (\<exists>s0 count s1 vs.
      load_issues_loop docs index7 (init with_pub) [issue_line] = (Inr (), s0) \<and>
      issue_release_count index7 s0
        \<lparr>issue_item = PStr ''foo_1998-03'', sim_pubid = PStr ''1234'', year = PInt 1998,
         volume = PStr ''12'', issue = PStr ''3'', first_page = PInt 12, last_page = PInt 14,
         release_count = PNone\<rparr> = (Inr count, s1) \<and>
      bind_params (SimIssueRow_tuple
        \<lparr>issue_item = PStr ''foo_1998-03'', sim_pubid = PStr ''1234'', year = PInt 1998,
         volume = PStr ''12'', issue = PStr ''3'', first_page = PInt 12, last_page = PInt 14,
         release_count = count\<rparr>) = Inr vs \<and>
      filter (\<lambda>r. col r 0 = col vs 0)
        (rows (sim_issue (stored (snd (load_issues docs index7 (init with_pub) ([issue_line] @ [issue_line])))))) = [vs]) \<and>
   rows (sim_issue (stored (snd (load_issues docs index7 (init with_pub) [issue_line, issue_line])))) =
     [[PStr ''foo_1998-03'', PStr ''1234'', PInt 1998, PStr ''12'', PStr ''3'', PInt 12, PInt 14, PInt 7]]"
proof -
  have p1: "pkey (sim_pub (db (init empty_store))) = [0]" by (simp add: init_def empty_store_def)
  have p2: "pub_line \<noteq> []" by (simp add: pub_line_def)
  have p3: "fst (load_pubs docs catalog (init empty_store) ([pub_line] @ [pub_line])) = Inr ()"
    by code_simp
  then have p3': "load_pubs docs catalog (init empty_store) ([pub_line] @ [pub_line]) =
      (Inr (), snd (load_pubs docs catalog (init empty_store) ([pub_line] @ [pub_line])))"
    by (simp add: prod_eq_iff)
  from last_write_wins [THEN conjunct1, rule_format, OF conjI [OF p1 conjI [OF p2 p3']]]
  obtain obj meta container row vs where
    a: "read_record docs pub_line = Inr (obj, meta)" "container_of catalog meta = Inr container"
      "pub_row meta container = Inr row" "bind_params (SimPubRow_tuple row) = Inr vs"
    and b: "col vs 0 \<noteq> PNone \<longrightarrow> filter (\<lambda>r. col r 0 = col vs 0)
        (rows (sim_pub (stored (snd (load_pubs docs catalog (init empty_store) ([pub_line] @ [pub_line])))))) = [vs]"
    by blast
  have rr: "read_record docs pub_line = Inr ([(''metadata'', PDict pub_meta)], pub_meta)"
    by code_simp
  with a have m: "meta = pub_meta" by simp
  have "container_of catalog pub_meta =
      Inr (Some \<lparr>issnl = PStr ''1234-5678'', ident = PStr ''abc123'', wikidata_qid = PNone\<rparr>)"
    by code_simp
  with a m have c: "container = Some \<lparr>issnl = PStr ''1234-5678'', ident = PStr ''abc123'', wikidata_qid = PNone\<rparr>"
    by simp
  have "bind_params (SimPubRow_tuple r) = Inr w \<Longrightarrow> pub_row pub_meta k = Inr r \<Longrightarrow> col w 0 = PStr ''1234''" for r w k
    using bind_params_nth [of "SimPubRow_tuple r" w]
    by (auto simp: pub_row_def pub_meta_def SimPubRow_tuple_def col_def split: sum.splits)
  with a m have k: "col vs 0 = PStr ''1234''" by blast
  with a b have p4: "\<exists>obj meta container row vs.
      read_record docs pub_line = Inr (obj, meta) \<and> container_of catalog meta = Inr container \<and>
      pub_row meta container = Inr row \<and> bind_params (SimPubRow_tuple row) = Inr vs \<and>
      col vs 0 = PStr ''1234'' \<and>
      filter (\<lambda>r. col r 0 = col vs 0)
        (rows (sim_pub (stored (snd (load_pubs docs catalog (init empty_store) ([pub_line] @ [pub_line])))))) = [vs]"
    by (intro exI [of _ obj] exI [of _ meta] exI [of _ container] exI [of _ row] exI [of _ vs]) simp
  have p5: "rows (sim_pub (stored (snd (load_pubs docs catalog (init empty_store) [pub_line, pub_line])))) =
     [[PStr ''1234'', PStr ''pub_foo'', PStr ''Foo'', PStr ''1234-5678'', PNone, PNone,
       PStr ''1234-5678'', PStr ''abc123'', PNone]]"
    by code_simp
  have p6: "rows (sim_pub (stored (snd (load_pubs docs catalog_404 (init with_pub) [pub_line])))) =
     [[PStr ''1234'', PStr ''pub_foo'', PStr ''Foo'', PStr ''1234-5678'', PNone, PNone,
       PNone, PNone, PNone]]"
    by code_simp
  have i1: "pkey (sim_issue (db (init with_pub))) = [0]" by code_simp
  have i2: "issue_line \<noteq> []" by (simp add: issue_line_def)
  have i3: "fst (load_issues docs index7 (init with_pub) ([issue_line] @ [issue_line])) = Inr ()"
    by code_simp
  then have i3': "load_issues docs index7 (init with_pub) ([issue_line] @ [issue_line]) =
      (Inr (), snd (load_issues docs index7 (init with_pub) ([issue_line] @ [issue_line])))"
    by (simp add: prod_eq_iff)
  have i4: "read_record docs issue_line =
      Inr ([(''metadata'', PDict (issue_meta ''foo_1998-03'' ''1998-03-01'')),
            (''page_numbers'', page_list [''12'', ''ii'', [], ''14''])],
           issue_meta ''foo_1998-03'' ''1998-03-01'')"
    by code_simp
  have i5: "issue_fields [(''metadata'', PDict (issue_meta ''foo_1998-03'' ''1998-03-01'')),
            (''page_numbers'', page_list [''12'', ''ii'', [], ''14''])]
           (issue_meta ''foo_1998-03'' ''1998-03-01'') =
      Inr (Some \<lparr>issue_item = PStr ''foo_1998-03'', sim_pubid = PStr ''1234'', year = PInt 1998,
         volume = PStr ''12'', issue = PStr ''3'', first_page = PInt 12, last_page = PInt 14,
         release_count = PNone\<rparr>)"
    by code_simp
  from last_write_wins [THEN conjunct2, rule_format,
      OF conjI [OF i1 conjI [OF i2 conjI [OF i3' conjI [OF i4 i5]]]]]
  have i6: "\<exists>s0 count s1 vs.
      load_issues_loop docs index7 (init with_pub) [issue_line] = (Inr (), s0) \<and>
      issue_release_count index7 s0
        \<lparr>issue_item = PStr ''foo_1998-03'', sim_pubid = PStr ''1234'', year = PInt 1998,
         volume = PStr ''12'', issue = PStr ''3'', first_page = PInt 12, last_page = PInt 14,
         release_count = PNone\<rparr> = (Inr count, s1) \<and>
      bind_params (SimIssueRow_tuple
        \<lparr>issue_item = PStr ''foo_1998-03'', sim_pubid = PStr ''1234'', year = PInt 1998,
         volume = PStr ''12'', issue = PStr ''3'', first_page = PInt 12, last_page = PInt 14,
         release_count = count\<rparr>) = Inr vs \<and>
      filter (\<lambda>r. col r 0 = col vs 0)
        (rows (sim_issue (stored (snd (load_issues docs index7 (init with_pub) ([issue_line] @ [issue_line])))))) = [vs]"
    by simp
  have i7: "rows (sim_issue (stored (snd (load_issues docs index7 (init with_pub) [issue_line, issue_line])))) =
     [[PStr ''foo_1998-03'', PStr ''1234'', PInt 1998, PStr ''12'', PStr ''3'', PInt 12, PInt 14, PInt 7]]"
    by code_simp
  from p1 p2 p3 p4 p5 p6 i1 i2 i3 i6 i7 show ?thesis by blast
qed

section \<open>The release-count snapshot insert\<close>

text \<open>
  C10. For every \<open>ReleaseCountsRow\<close> and every state, \<open>insert_release_counts\<close>
  raises and leaves the state as it was: the row's tuple has five values and the
  statement nine placeholders. On a table that does not have nine columns the
  statement is already refused when it is prepared; on one that has, the five
  parameters are refused.
\<close>

theorem insert_release_counts_fails:
  "length (ReleaseCountsRow_tuple counts) = 5 \<and>
   insert_release_counts self counts =
     (Inl (if ncols (release_counts (db self)) \<noteq> 9 then OperationalError else ProgrammingError),
      self)"
  by (simp add: insert_release_counts_def insert_or_replace_def ReleaseCountsRow_tuple_def)

end
